theory Spec2Isabelle
  imports Complex_Main
begin

section \<open>Order lifecycle and inventory reconciliation of the store backend\<close>

text \<open>
  The backend is a set of Express route handlers over a relational store. Each handler is
  embedded as a function from the store (and the request) to a response and the new
  store. A table is the list of its rows; \<open>.eq(column, v)\<close> is a \<open>filter\<close>,
  \<open>.single()\<close> succeeds on exactly one row and is an error otherwise, an update
  rewrites the matching rows, a delete drops them, an insert appends.

  The store is the one that \<open>complete-schema.sql\<close> declares. Of its constraints the
  model has those that decide the order handlers: the columns of \<open>orders\<close> (a write to
  a column the table does not have is rejected), the foreign key from \<open>orders.user_id\<close>
  to \<open>users\<close>, \<open>total_price DECIMAL(10,2) NOT NULL\<close> (the store rounds to two
  decimals and rejects what does not fit), \<open>estimated_delivery DATE\<close> and the 32-bit
  range of \<open>products.stock INTEGER\<close>. Failures of the network are not modelled.

  Numbers in a handler are JavaScript numbers, that is IEEE 754 binary64 values with
  round-to-nearest arithmetic. \<open>stock\<close> and \<open>quantity\<close> are integers; sums and
  differences of them are exact as long as the result fits the \<open>INTEGER\<close> column, and a
  result that does not fit is rejected by the store. Row ids are UUID strings.
\<close>

subsection \<open>JavaScript numbers\<close>

text \<open>
  A finite number is the real it denotes; \<open>Infinity\<close>, \<open>-Infinity\<close> and \<open>NaN\<close>
  are one value, \<open>NonFinite\<close>: none of them becomes finite again under \<open>+\<close> and
  \<open>*\<close>, and \<open>JSON.stringify\<close> writes each of them as \<open>null\<close>.
\<close>

datatype jsnum = Num real | NonFinite

text \<open>The number of binary digits of a positive integer.\<close>

function bit_length :: "int \<Rightarrow> int" where
  "bit_length n = (if n \<le> 0 then 0 else 1 + bit_length (n div 2))"
  by pat_completeness auto
termination
  by (relation "measure nat") auto

declare bit_length.simps [simp del]

definition pow2 :: "int \<Rightarrow> real" where
  "pow2 e = (if 0 \<le> e then 2 ^ nat e else 1 / 2 ^ nat (- e))"

text \<open>For \<open>0 < x\<close>, the integer \<open>k\<close> with \<open>2 ^ k \<le> x < 2 ^ (k + 1)\<close>.\<close>

definition ilog2 :: "real \<Rightarrow> int" where
  "ilog2 x =
     (if 1 \<le> x then bit_length \<lfloor>x\<rfloor> - 1
      else let n = bit_length \<lfloor>1 / x\<rfloor>
           in if x * 2 ^ nat (n - 1) = 1 then 1 - n else - n)"

text \<open>Rounding to the nearest integer, a tie to the even one.\<close>

definition round_even :: "real \<Rightarrow> int" where
  "round_even x =
     (let f = \<lfloor>x\<rfloor>; d = x - of_int f
      in if d < 1 / 2 then f else if 1 / 2 < d then f + 1 else if even f then f else f + 1)"

text \<open>
  The binary64 value nearest to \<open>x\<close>: a significand of 53 bits, the exponent of the last
  bit not below \<open>-1074\<close> (subnormal numbers), ties to even.
\<close>

definition fl :: "real \<Rightarrow> real" where
  "fl x =
     (if x = 0 then 0
      else let e = max (ilog2 \<bar>x\<bar> - 52) (- 1074)
           in sgn x * of_int (round_even (\<bar>x\<bar> / pow2 e)) * pow2 e)"

text \<open>
  The result of an operation whose exact value is \<open>x\<close>. From \<open>2 ^ 1024 - 2 ^ 970\<close> on,
  half a unit above the largest binary64 value, the result is \<open>Infinity\<close>.
\<close>

definition js_round :: "real \<Rightarrow> jsnum" where
  "js_round x = (if 2 ^ 1024 - 2 ^ 970 \<le> \<bar>x\<bar> then NonFinite else Num (fl x))"

fun js_mul :: "jsnum \<Rightarrow> jsnum \<Rightarrow> jsnum" where
  "js_mul (Num x) (Num y) = js_round (x * y)"
| "js_mul a b = NonFinite"

fun js_add :: "jsnum \<Rightarrow> jsnum \<Rightarrow> jsnum" where
  "js_add (Num x) (Num y) = js_round (x + y)"
| "js_add a b = NonFinite"

text \<open>An integer of the request body and a \<open>DECIMAL\<close> of a row, as the handler reads them.\<close>

definition js_of_int :: "int \<Rightarrow> jsnum" where
  "js_of_int n = js_round (of_int n)"

definition js_of_decimal :: "real \<Rightarrow> jsnum" where
  "js_of_decimal d = js_round d"

subsection \<open>Column types of the store\<close>

text \<open>
  A number reaches the store as the shortest decimal text that reads back as the same
  binary64 value, and a \<open>DECIMAL(10,2)\<close> column rounds that text to two decimals, a tie
  away from zero. For a value \<open>a\<close> between the cents \<open>c\<close> and \<open>c + 1\<close> the text is on
  the same side of the half cent \<open>t\<close> as \<open>a\<close>, except when \<open>a\<close> is the binary64
  value of \<open>t\<close> itself: then the text is \<open>t\<close>, which is rounded up.
\<close>

definition dec2 :: "real \<Rightarrow> real" where
  "dec2 x =
     (let a = \<bar>x\<bar>; c = \<lfloor>a * 100\<rfloor>; t = (of_int c + 1 / 2) / 100
      in sgn x * (if t \<le> a \<or> fl t = a then of_int (c + 1) else of_int c) / 100)"

text \<open>
  What a \<open>DECIMAL(10,2) NOT NULL\<close> column keeps of a number: nothing of \<open>null\<close> and
  nothing of a value that rounds to \<open>10 ^ 8\<close> or more.
\<close>

definition numeric_10_2 :: "jsnum \<Rightarrow> real option" where
  "numeric_10_2 v =
     (case v of
        NonFinite \<Rightarrow> None
      | Num x \<Rightarrow> if \<bar>dec2 x\<bar> < 10 ^ 8 then Some (dec2 x) else None)"

text \<open>The range of an \<open>INTEGER\<close> column.\<close>

definition in_int4 :: "int \<Rightarrow> bool" where
  "in_int4 v \<longleftrightarrow> - 2147483648 \<le> v \<and> v \<le> 2147483647"

subsection \<open>Rows and tables\<close>

record product =
  p_id :: string
  p_title :: string
  p_price :: real
  p_stock :: int
  p_image_url :: "string option"
  p_approved_by_ai :: bool

record cart_item =
  ci_id :: string
  ci_user_id :: string
  ci_product_id :: string
  ci_quantity :: int

text \<open>
  A line of an order as stored in the \<open>items\<close> column, a JSON value: a frozen copy of
  the product, with the numbers the handler computed.
\<close>

record order_item =
  oi_product_id :: string
  oi_product_title :: string
  oi_product_image :: "string option"
  oi_price :: jsnum
  oi_quantity :: int
  oi_total :: jsnum

text \<open>A JSON object with string fields, as \<open>shipping_info\<close> arrives in the body.\<close>

type_synonym json_object = "(string \<times> string) list"

text \<open>
  A row of \<open>orders\<close>. \<open>o_total_price\<close> is the decimal the column keeps,
  \<open>o_estimated_delivery\<close> the day (counted from 1970-01-01) and
  \<open>o_cancellation_reason\<close> the column that the cancellation handler writes.
\<close>

record order =
  o_id :: string
  o_user_id :: string
  o_items :: "order_item list"
  o_shipping_info :: json_object
  o_total_price :: real
  o_payment_method :: string
  o_status :: string
  o_payment_status :: string
  o_estimated_delivery :: int
  o_tracking_number :: "string option"
  o_cancellation_reason :: "string option"

record user_row =
  ur_id :: string
  ur_role :: "string option"

text \<open>The tables, and the names of the columns that the table \<open>orders\<close> has.\<close>

record db =
  products :: "product list"
  cart_items :: "cart_item list"
  orders :: "order list"
  users :: "user_row list"
  orders_columns :: "string list"

text \<open>The columns of \<open>orders\<close> in \<open>complete-schema.sql\<close>.\<close>

definition schema_orders_columns :: "string list" where
  "schema_orders_columns =
     [''id'', ''user_id'', ''items'', ''shipping_info'', ''total_price'', ''status'',
      ''payment_method'', ''payment_status'', ''tracking_number'', ''estimated_delivery'',
      ''created_at'', ''updated_at'']"

definition has_columns :: "db \<Rightarrow> string list \<Rightarrow> bool" where
  "has_columns st cols \<longleftrightarrow> set cols \<subseteq> set (orders_columns st)"

text \<open>\<open>req.user\<close>, attached by the authentication middleware.\<close>

record req_user =
  u_id :: string
  u_email :: string
  u_role :: string

subsection \<open>Responses\<close>

text \<open>
  One constructor for each error response of the handlers; \<open>status_code\<close> gives the
  HTTP status the handler sends with it.
\<close>

datatype error =
    ItemsRequired
  | ShippingRequired
  | ProductNotFound string
  | InsufficientStockFor string int
  | OrderNotFound
  | NotPermitted
  | CannotCancel
  | InvalidStatus
  | AdminRequired
  | StoreError
  | ProductIdRequired
  | QuantityNotPositive
  | CartProductNotFound
  | InsufficientStock
  | NotEnoughStock
  | AccessTokenRequired
  | InvalidToken
  | FailedToFetchUserData

fun status_code :: "error \<Rightarrow> nat" where
  "status_code ItemsRequired = 400"
| "status_code ShippingRequired = 400"
| "status_code (ProductNotFound pid) = 400"
| "status_code (InsufficientStockFor t n) = 400"
| "status_code OrderNotFound = 404"
| "status_code NotPermitted = 403"
| "status_code CannotCancel = 400"
| "status_code InvalidStatus = 400"
| "status_code AdminRequired = 403"
| "status_code StoreError = 500"
| "status_code ProductIdRequired = 400"
| "status_code QuantityNotPositive = 400"
| "status_code CartProductNotFound = 404"
| "status_code InsufficientStock = 400"
| "status_code NotEnoughStock = 400"
| "status_code AccessTokenRequired = 401"
| "status_code InvalidToken = 403"
| "status_code FailedToFetchUserData = 500"

subsection \<open>Store primitives\<close>

text \<open>\<open>.single()\<close>: the row when the query has exactly one, an error otherwise.\<close>

definition single :: "'r list \<Rightarrow> 'r option" where
  "single rows = (case rows of [r] \<Rightarrow> Some r | _ \<Rightarrow> None)"

text \<open>\<open>.update(f).eq(...)\<close>: every matching row is rewritten.\<close>

definition update_where :: "('r \<Rightarrow> bool) \<Rightarrow> ('r \<Rightarrow> 'r) \<Rightarrow> 'r list \<Rightarrow> 'r list" where
  "update_where c f rows = map (\<lambda>r. if c r then f r else r) rows"

text \<open>
  \<open>.update(f).eq(...).select().single()\<close>: the rewritten row and the new table when
  exactly one row matches; otherwise an error and the table as it was.
\<close>

definition update_single :: "('r \<Rightarrow> bool) \<Rightarrow> ('r \<Rightarrow> 'r) \<Rightarrow> 'r list \<Rightarrow> ('r \<times> 'r list) option" where
  "update_single c f rows =
     (case single (filter c rows) of
        None \<Rightarrow> None
      | Some r \<Rightarrow> Some (f r, update_where c f rows))"

text \<open>JavaScript truthiness of a field that is a string or absent.\<close>

definition truthy :: "string option \<Rightarrow> bool" where
  "truthy v = (case v of None \<Rightarrow> False | Some s \<Rightarrow> s \<noteq> [])"

definition field :: "json_object \<Rightarrow> string \<Rightarrow> string option" where
  "field obj k = map_of obj k"

subsection \<open>POST /api/orders: order placement\<close>

record order_line =
  it_product_id :: string
  it_quantity :: int

text \<open>
  The body: \<open>items\<close> is \<open>None\<close> when the field is missing or not an array,
  \<open>shipping_info\<close> and \<open>payment_method\<close> are \<open>None\<close> when missing.
\<close>

record place_body =
  b_items :: "order_line list option"
  b_shipping_info :: "json_object option"
  b_payment_method :: "string option"

definition shipping_ok :: "json_object \<Rightarrow> bool" where
  "shipping_ok shipping_info =
     (truthy (field shipping_info ''address'') \<and> truthy (field shipping_info ''city''))"

text \<open>
  The first loop of the handler: fetch each product, check its stock, accumulate the total
  and the snapshot lines. It returns at the first line that fails.
\<close>

fun price_items ::
  "product list \<Rightarrow> order_line list \<Rightarrow> jsnum \<Rightarrow> order_item list \<Rightarrow> error + (jsnum \<times> order_item list)"
where
  "price_items ps [] total_price orderItems = Inr (total_price, orderItems)"
| "price_items ps (item # rest) total_price orderItems =
     (case single (filter (\<lambda>p. p_id p = it_product_id item) ps) of
        None \<Rightarrow> Inl (ProductNotFound (it_product_id item))
      | Some product \<Rightarrow>
          if p_stock product < it_quantity item
          then Inl (InsufficientStockFor (p_title product) (p_stock product))
          else
            let itemTotal = js_mul (js_of_decimal (p_price product)) (js_of_int (it_quantity item))
            in price_items ps rest (js_add total_price itemTotal)
                 (orderItems @
                   [\<lparr> oi_product_id = p_id product,
                      oi_product_title = p_title product,
                      oi_product_image = p_image_url product,
                      oi_price = js_of_decimal (p_price product),
                      oi_quantity = it_quantity item,
                      oi_total = itemTotal \<rparr>]))"

text \<open>
  The second loop: re-read each product's stock and write it back decreased. A line whose
  product cannot be read is skipped; the result of the write is not looked at, so a value
  that the column rejects leaves the stock as it was.
\<close>

fun decrement_stock :: "order_line list \<Rightarrow> product list \<Rightarrow> product list" where
  "decrement_stock [] ps = ps"
| "decrement_stock (item # rest) ps =
     decrement_stock rest
       (case single (filter (\<lambda>p. p_id p = it_product_id item) ps) of
          None \<Rightarrow> ps
        | Some currentProduct \<Rightarrow>
            if in_int4 (p_stock currentProduct - it_quantity item)
            then update_where (\<lambda>p. p_id p = it_product_id item)
                   (\<lambda>p. p\<lparr>p_stock := p_stock currentProduct - it_quantity item\<rparr>) ps
            else ps)"

definition clear_cart :: "string \<Rightarrow> cart_item list \<Rightarrow> cart_item list" where
  "clear_cart uid cart = filter (\<lambda>c. ci_user_id c \<noteq> uid) cart"

definition day_ms :: int where
  "day_ms = 24 * 60 * 60 * 1000"

definition week_ms :: int where
  "week_ms = 7 * 24 * 60 * 60 * 1000"

text \<open>The columns that the insert of the handler names.\<close>

definition insert_columns :: "string list" where
  "insert_columns =
     [''user_id'', ''items'', ''shipping_info'', ''total_price'', ''payment_method'',
      ''status'', ''payment_status'', ''estimated_delivery'']"

text \<open>
  \<open>new_id\<close> is the id the store gives the inserted row and \<open>now\<close> is \<open>Date.now()\<close>.
  The insert is rejected (\<open>orderError\<close>, answered with 500) when the table lacks a
  column, when the user has no row in \<open>users\<close> or when the total does not fit its
  column; the row that comes back has the total as the column keeps it.
\<close>

definition place :: "db \<Rightarrow> req_user \<Rightarrow> string \<Rightarrow> int \<Rightarrow> place_body \<Rightarrow> (error + order) \<times> db" where
  "place st user new_id now body =
     (case b_items body of
        None \<Rightarrow> (Inl ItemsRequired, st)
      | Some items \<Rightarrow>
          if items = [] then (Inl ItemsRequired, st)
          else
            (case b_shipping_info body of
               None \<Rightarrow> (Inl ShippingRequired, st)
             | Some shipping_info \<Rightarrow>
                 if \<not> shipping_ok shipping_info then (Inl ShippingRequired, st)
                 else
                   (case price_items (products st) items (Num 0) [] of
                      Inl e \<Rightarrow> (Inl e, st)
                    | Inr (total_price, orderItems) \<Rightarrow>
                        if \<not> has_columns st insert_columns \<or>
                           u_id user \<notin> set (map ur_id (users st))
                        then (Inl StoreError, st)
                        else
                          (case numeric_10_2 total_price of
                             None \<Rightarrow> (Inl StoreError, st)
                           | Some stored_total \<Rightarrow>
                               let order =
                                     \<lparr> o_id = new_id,
                                       o_user_id = u_id user,
                                       o_items = orderItems,
                                       o_shipping_info = shipping_info,
                                       o_total_price = stored_total,
                                       o_payment_method =
                                         (case b_payment_method body of
                                            None \<Rightarrow> ''card'' | Some m \<Rightarrow> m),
                                       o_status = ''pending'',
                                       o_payment_status = ''pending'',
                                       o_estimated_delivery = (now + week_ms) div day_ms,
                                       o_tracking_number = None,
                                       o_cancellation_reason = None \<rparr>;
                                   st1 = st\<lparr>orders := orders st @ [order]\<rparr>;
                                   st2 = st1\<lparr>products := decrement_stock items (products st1)\<rparr>;
                                   st3 = st2\<lparr>cart_items := clear_cart (u_id user) (cart_items st2)\<rparr>
                               in (Inr order, st3)))))"

subsection \<open>POST /api/orders/:id/cancel: cancellation\<close>

text \<open>
  The restore loop: re-read each product's stock and write it back increased; as in
  placement the result of the write is not looked at.
\<close>

fun restore_stock :: "order_item list \<Rightarrow> product list \<Rightarrow> product list" where
  "restore_stock [] ps = ps"
| "restore_stock (item # rest) ps =
     restore_stock rest
       (case single (filter (\<lambda>p. p_id p = oi_product_id item) ps) of
          None \<Rightarrow> ps
        | Some currentProduct \<Rightarrow>
            if in_int4 (p_stock currentProduct + oi_quantity item)
            then update_where (\<lambda>p. p_id p = oi_product_id item)
                   (\<lambda>p. p\<lparr>p_stock := p_stock currentProduct + oi_quantity item\<rparr>) ps
            else ps)"

text \<open>\<open>reason || 'User requested cancellation'\<close>\<close>

definition cancellation_reason :: "string option \<Rightarrow> string" where
  "cancellation_reason reason =
     (case reason of
        None \<Rightarrow> ''User requested cancellation''
      | Some r \<Rightarrow> if r = [] then ''User requested cancellation'' else r)"

text \<open>
  The update names the columns \<open>status\<close> and \<open>cancellation_reason\<close>; the store rejects
  it when the table lacks one of them, and the handler then answers 500 before the
  restore loop.
\<close>

definition cancel :: "db \<Rightarrow> req_user \<Rightarrow> string \<Rightarrow> string option \<Rightarrow> (error + order) \<times> db" where
  "cancel st user order_id reason =
     (case single (filter (\<lambda>r. o_id r = order_id) (orders st)) of
        None \<Rightarrow> (Inl OrderNotFound, st)
      | Some order \<Rightarrow>
          if u_role user \<noteq> ''admin'' \<and> o_user_id order \<noteq> u_id user
          then (Inl NotPermitted, st)
          else if o_status order = ''shipped'' \<or> o_status order = ''delivered''
          then (Inl CannotCancel, st)
          else if \<not> has_columns st [''status'', ''cancellation_reason'']
          then (Inl StoreError, st)
          else
            (case update_single (\<lambda>r. o_id r = order_id)
                    (\<lambda>r. r\<lparr>o_status := ''cancelled'',
                            o_cancellation_reason := Some (cancellation_reason reason)\<rparr>)
                    (orders st) of
               None \<Rightarrow> (Inl StoreError, st)
             | Some (data, orders') \<Rightarrow>
                 let st1 = st\<lparr>orders := orders'\<rparr>;
                     st2 = st1\<lparr>products := restore_stock (o_items order) (products st1)\<rparr>
                 in (Inr data, st2)))"

subsection \<open>PATCH /api/orders/:id/status: status update by an admin\<close>

definition requireAdmin :: "req_user option \<Rightarrow> error + req_user" where
  "requireAdmin user =
     (case user of
        None \<Rightarrow> Inl AdminRequired
      | Some u \<Rightarrow> if u_role u \<noteq> ''admin'' then Inl AdminRequired else Inr u)"



subsection \<open>PUT /api/products/:id: product update by an admin\<close>

text \<open>
  The body is a set of column updates; the columns the order engine reads are kept here.
\<close>

record product_updates =
  up_title :: "string option"
  up_price :: "real option"
  up_stock :: "int option"
  up_approved_by_ai :: "bool option"

definition apply_updates :: "product_updates \<Rightarrow> product \<Rightarrow> product" where
  "apply_updates updates p =
     p\<lparr> p_title := (case up_title updates of None \<Rightarrow> p_title p | Some v \<Rightarrow> v),
        p_price := (case up_price updates of None \<Rightarrow> p_price p | Some v \<Rightarrow> v),
        p_stock := (case up_stock updates of None \<Rightarrow> p_stock p | Some v \<Rightarrow> v),
        p_approved_by_ai :=
          (case up_approved_by_ai updates of None \<Rightarrow> p_approved_by_ai p | Some v \<Rightarrow> v) \<rparr>"

definition put_product ::
  "db \<Rightarrow> req_user option \<Rightarrow> string \<Rightarrow> product_updates \<Rightarrow> (error + product) \<times> db"
where
  "put_product st user product_id updates =
     (case requireAdmin user of
        Inl e \<Rightarrow> (Inl e, st)
      | Inr admin \<Rightarrow>
          (case update_single (\<lambda>p. p_id p = product_id) (apply_updates updates) (products st) of
             None \<Rightarrow> (Inl StoreError, st)
           | Some (data, products') \<Rightarrow> (Inr data, st\<lparr>products := products'\<rparr>)))"

subsection \<open>POST /api/cart and DELETE /api/cart/:id\<close>

record cart_body =
  cb_product_id :: "string option"
  cb_quantity :: "int option"

definition cart_add :: "db \<Rightarrow> req_user \<Rightarrow> string \<Rightarrow> cart_body \<Rightarrow> (error + cart_item) \<times> db" where
  "cart_add st user new_id body =
     (let quantity = (case cb_quantity body of None \<Rightarrow> 1 | Some q \<Rightarrow> q) in
      case cb_product_id body of
        None \<Rightarrow> (Inl ProductIdRequired, st)
      | Some product_id \<Rightarrow>
          if product_id = [] then (Inl ProductIdRequired, st)
          else if quantity \<le> 0 then (Inl QuantityNotPositive, st)
          else
            (case single (filter (\<lambda>p. p_id p = product_id \<and> p_approved_by_ai p) (products st)) of
               None \<Rightarrow> (Inl CartProductNotFound, st)
             | Some product \<Rightarrow>
                 if p_stock product < quantity then (Inl InsufficientStock, st)
                 else
                   (case single (filter (\<lambda>c. ci_user_id c = u_id user \<and> ci_product_id c = product_id)
                                  (cart_items st)) of
                      Some existingItem \<Rightarrow>
                        let newQuantity = ci_quantity existingItem + quantity in
                        if newQuantity > p_stock product then (Inl NotEnoughStock, st)
                        else
                          (case update_single (\<lambda>c. ci_id c = ci_id existingItem)
                                  (\<lambda>c. c\<lparr>ci_quantity := newQuantity\<rparr>) (cart_items st) of
                             None \<Rightarrow> (Inl StoreError, st)
                           | Some (data, cart') \<Rightarrow> (Inr data, st\<lparr>cart_items := cart'\<rparr>))
                    | None \<Rightarrow>
                        let data = \<lparr> ci_id = new_id, ci_user_id = u_id user,
                                     ci_product_id = product_id, ci_quantity = quantity \<rparr>
                        in (Inr data, st\<lparr>cart_items := cart_items st @ [data]\<rparr>))))"

text \<open>The delete is filtered by the line id and by the caller; it reports no row count.\<close>

definition cart_remove :: "db \<Rightarrow> req_user \<Rightarrow> string \<Rightarrow> (error + string) \<times> db" where
  "cart_remove st user line_id =
     (Inr ''Item removed from cart successfully'',
      st\<lparr>cart_items := filter (\<lambda>c. \<not> (ci_id c = line_id \<and> ci_user_id c = u_id user)) (cart_items st)\<rparr>)"

subsection \<open>Authentication middleware\<close>

text \<open>What the identity provider returns for a token it accepts.\<close>

record auth_user =
  au_id :: string
  au_email :: string

text \<open>\<open>String.prototype.split\<close> on a one-character separator.\<close>

fun split_js :: "char \<Rightarrow> string \<Rightarrow> string list" where
  "split_js d [] = [[]]"
| "split_js d (c # cs) =
     (if c = d then [] # split_js d cs
      else (case split_js d cs of
              [] \<Rightarrow> [[c]]
            | w # ws \<Rightarrow> (c # w) # ws))"

text \<open>\<open>authHeader && authHeader.split(' ')[1]\<close>; \<open>None\<close> stands for every falsy value.\<close>

definition bearer_token :: "string option \<Rightarrow> string option" where
  "bearer_token authHeader =
     (case authHeader of
        None \<Rightarrow> None
      | Some h \<Rightarrow>
          (case split_js CHR '' '' h of
             a # t # rest \<Rightarrow> if t = [] then None else Some t
           | _ \<Rightarrow> None))"

text \<open>\<open>userData?.role || 'user'\<close>\<close>

definition role_or_user :: "user_row option \<Rightarrow> string" where
  "role_or_user userData =
     (case userData of
        None \<Rightarrow> ''user''
      | Some row \<Rightarrow>
          (case ur_role row of
             None \<Rightarrow> ''user''
           | Some role \<Rightarrow> if role = [] then ''user'' else role))"

text \<open>
  \<open>getUser\<close> stands for \<open>supabase.auth.getUser\<close>: \<open>None\<close> when the provider
  reports an error, returns no user or throws.
\<close>

definition authenticateToken ::
  "(string \<Rightarrow> auth_user option) \<Rightarrow> db \<Rightarrow> string option \<Rightarrow> error + req_user"
where
  "authenticateToken getUser st authHeader =
     (case bearer_token authHeader of
        None \<Rightarrow> Inl AccessTokenRequired
      | Some token \<Rightarrow>
          (case getUser token of
             None \<Rightarrow> Inl InvalidToken
           | Some user \<Rightarrow>
               (case single (filter (\<lambda>r. ur_id r = au_id user) (users st)) of
                  None \<Rightarrow> Inl FailedToFetchUserData
                | Some userData \<Rightarrow>
                    Inr \<lparr> u_id = au_id user, u_email = au_email user,
                          u_role = role_or_user (Some userData) \<rparr>)))"

text \<open>The optional mode never rejects: it returns \<open>req.user\<close>, which may stay unset.\<close>

definition optionalAuth ::
  "(string \<Rightarrow> auth_user option) \<Rightarrow> db \<Rightarrow> string option \<Rightarrow> req_user option"
where
  "optionalAuth getUser st authHeader =
     (case bearer_token authHeader of
        None \<Rightarrow> None
      | Some token \<Rightarrow>
          (case getUser token of
             None \<Rightarrow> None
           | Some user \<Rightarrow>
               Some \<lparr> u_id = au_id user, u_email = au_email user,
                       u_role = role_or_user (single (filter (\<lambda>r. ur_id r = au_id user) (users st))) \<rparr>))"

subsection \<open>A small store, for concrete runs\<close>

definition ex_widget :: product where
  "ex_widget = \<lparr> p_id = ''p1'', p_title = ''Widget'', p_price = 10, p_stock = 3,
                 p_image_url = None, p_approved_by_ai = True \<rparr>"

definition ex_gadget :: product where
  "ex_gadget = \<lparr> p_id = ''p2'', p_title = ''Gadget'', p_price = 5, p_stock = 4,
                 p_image_url = None, p_approved_by_ai = False \<rparr>"

definition ex_user :: req_user where
  "ex_user = \<lparr> u_id = ''u1'', u_email = ''u1@example.org'', u_role = ''user'' \<rparr>"

definition ex_admin :: req_user where
  "ex_admin = \<lparr> u_id = ''a1'', u_email = ''a1@example.org'', u_role = ''admin'' \<rparr>"

definition ex_address :: json_object where
  "ex_address = [(''address'', ''1 Main St''), (''city'', ''Paris'')]"

definition ex_order :: order where
  "ex_order =
     \<lparr> o_id = ''o1'', o_user_id = ''u1'',
       o_items = [\<lparr> oi_product_id = ''p1'', oi_product_title = ''Widget'',
                    oi_product_image = None, oi_price = Num 10, oi_quantity = 2,
                    oi_total = Num 20 \<rparr>],
       o_shipping_info = ex_address, o_total_price = 20, o_payment_method = ''card'',
       o_status = ''pending'', o_payment_status = ''pending'', o_estimated_delivery = 0,
       o_tracking_number = None, o_cancellation_reason = None \<rparr>"

definition ex_cart :: "cart_item list" where
  "ex_cart =
     [\<lparr> ci_id = ''c1'', ci_user_id = ''u1'', ci_product_id = ''p1'', ci_quantity = 1 \<rparr>,
      \<lparr> ci_id = ''c2'', ci_user_id = ''u2'', ci_product_id = ''p1'', ci_quantity = 2 \<rparr>]"

definition ex_users :: "user_row list" where
  "ex_users = [\<lparr> ur_id = ''u1'', ur_role = Some ''user'' \<rparr>,
               \<lparr> ur_id = ''a1'', ur_role = Some ''admin'' \<rparr>]"

text \<open>An identity provider that knows one token, of a user without a row in \<open>users\<close>.\<close>

definition ex_getUser :: "string \<Rightarrow> auth_user option" where
  "ex_getUser token =
     (if token = ''tok'' then Some \<lparr> au_id = ''u9'', au_email = ''u9@example.org'' \<rparr> else None)"

text \<open>The store has the tables of \<open>complete-schema.sql\<close>.\<close>

definition ex_db :: db where
  "ex_db = \<lparr> products = [ex_widget, ex_gadget], cart_items = ex_cart,
             orders = [ex_order], users = ex_users,
             orders_columns = schema_orders_columns \<rparr>"

text \<open>The same store after a column \<open>cancellation_reason\<close> has been added to \<open>orders\<close>.\<close>

definition ex_db_reason :: db where
  "ex_db_reason = ex_db\<lparr>orders_columns := ''cancellation_reason'' # schema_orders_columns\<rparr>"

text \<open>An order of two widgets and one gadget, and the order row and store it leads to.\<close>

definition ex_body :: place_body where
  "ex_body = \<lparr> b_items = Some [\<lparr> it_product_id = ''p1'', it_quantity = 2 \<rparr>,
                                \<lparr> it_product_id = ''p2'', it_quantity = 1 \<rparr>],
               b_shipping_info = Some ex_address, b_payment_method = None \<rparr>"

definition ex_placed :: order where
  "ex_placed =
     \<lparr> o_id = ''o2'', o_user_id = ''u1'',
       o_items = [\<lparr> oi_product_id = ''p1'', oi_product_title = ''Widget'',
                    oi_product_image = None, oi_price = Num 10, oi_quantity = 2,
                    oi_total = Num 20 \<rparr>,
                  \<lparr> oi_product_id = ''p2'', oi_product_title = ''Gadget'',
                    oi_product_image = None, oi_price = Num 5, oi_quantity = 1,
                    oi_total = Num 5 \<rparr>],
       o_shipping_info = ex_address, o_total_price = 25, o_payment_method = ''card'',
       o_status = ''pending'', o_payment_status = ''pending'', o_estimated_delivery = 7,
       o_tracking_number = None, o_cancellation_reason = None \<rparr>"

definition ex_db_placed :: db where
  "ex_db_placed =
     \<lparr> products = [ex_widget\<lparr>p_stock := 1\<rparr>, ex_gadget\<lparr>p_stock := 3\<rparr>],
       cart_items = [\<lparr> ci_id = ''c2'', ci_user_id = ''u2'', ci_product_id = ''p1'', ci_quantity = 2 \<rparr>],
       orders = [ex_order, ex_placed], users = ex_users,
       orders_columns = schema_orders_columns \<rparr>"

text \<open>
  A store whose only product costs a tenth, and an order of three of it; a store whose
  only product costs sixty million, and an order of two of it.
\<close>

definition ex_db_dime :: db where
  "ex_db_dime = ex_db\<lparr>products := [ex_gadget\<lparr>p_price := 1 / 10\<rparr>]\<rparr>"

definition ex_body_three :: place_body where
  "ex_body_three = \<lparr> b_items = Some [\<lparr> it_product_id = ''p2'', it_quantity = 3 \<rparr>],
                     b_shipping_info = Some ex_address, b_payment_method = None \<rparr>"

definition ex_db_dear :: db where
  "ex_db_dear = ex_db\<lparr>products := [ex_gadget\<lparr>p_price := 60000000\<rparr>]\<rparr>"

definition ex_body_two :: place_body where
  "ex_body_two = \<lparr> b_items = Some [\<lparr> it_product_id = ''p2'', it_quantity = 2 \<rparr>],
                   b_shipping_info = Some ex_address, b_payment_method = None \<rparr>"

section \<open>Properties\<close>

subsection \<open>Store primitives\<close>

lemma single_eq_Some [simp]: "single xs = Some r \<longleftrightarrow> xs = [r]"
  by (auto simp: single_def split: list.splits)

lemma single_one [simp]: "single [r] = Some r"
  by (simp add: single_def)

lemma single_Nil [simp]: "single [] = None"
  by (simp add: single_def)

lemma filter_key_distinct:
  "distinct (map f xs) \<Longrightarrow> filter (\<lambda>x. f x = k) xs = [] \<or> (\<exists>x. filter (\<lambda>x. f x = k) xs = [x])"
proof (induction xs)
  case Nil
  then show ?case by simp
next
  case (Cons a xs)
  show ?case
  proof (cases "f a = k")
    case True
    from Cons.prems have "f a \<notin> f ` set xs" by simp
    with True have "\<forall>x\<in>set xs. f x \<noteq> k" by blast
    then have "filter (\<lambda>x. f x = k) xs = []" by (simp add: filter_empty_conv)
    with True show ?thesis by simp
  next
    case False
    with Cons show ?thesis by simp
  qed
qed

lemma filter_singleton_all:
  assumes "filter P xs = [r]" "x \<in> set xs" "P x"
  shows "x = r"
proof -
  from assms(2,3) have "x \<in> set (filter P xs)" by simp
  with assms(1) show ?thesis by simp
qed

lemma filter_key_member:
  assumes "distinct (map f xs)" "x \<in> set xs"
  shows "filter (\<lambda>y. f y = f x) xs = [x]"
proof -
  from filter_key_distinct [OF assms(1), of "f x"]
  consider "filter (\<lambda>y. f y = f x) xs = []" | z where "filter (\<lambda>y. f y = f x) xs = [z]"
    by blast
  then show ?thesis
  proof cases
    case 1
    with assms(2) show ?thesis by (auto simp: filter_empty_conv)
  next
    case 2
    from filter_singleton_all [OF 2 assms(2)] 2 show ?thesis by simp
  qed
qed

lemma update_where_single:
  assumes "filter c rows = [r]" "\<And>x. c (f x) = c x"
  shows "filter c (update_where c f rows) = [f r]"
proof -
  have "filter c (update_where c f rows) = map f (filter c rows)"
    unfolding update_where_def using assms(2) by (induction rows) auto
  with assms(1) show ?thesis by simp
qed

text \<open>
  A loop that re-reads a stock and writes it back changed by \<open>d\<close>, on a table with unique
  ids: one step, when the new value fits the column.
\<close>

lemma stock_step:
  assumes "distinct (map p_id ps)"
    and "\<forall>p\<in>set ps. p_id p = pid \<longrightarrow> in_int4 (p_stock p + d)"
  shows "(case single (filter (\<lambda>p. p_id p = pid) ps) of
            None \<Rightarrow> ps
          | Some currentProduct \<Rightarrow>
              if in_int4 (p_stock currentProduct + d)
              then update_where (\<lambda>p. p_id p = pid) (\<lambda>p. p\<lparr>p_stock := p_stock currentProduct + d\<rparr>) ps
              else ps)
         = map (\<lambda>p. if p_id p = pid then p\<lparr>p_stock := p_stock p + d\<rparr> else p) ps"
proof -
  from filter_key_distinct [OF assms(1), of pid]
  consider "filter (\<lambda>p. p_id p = pid) ps = []" | cur where "filter (\<lambda>p. p_id p = pid) ps = [cur]"
    by blast
  then show ?thesis
  proof cases
    case 1
    then have "\<forall>p\<in>set ps. p_id p \<noteq> pid" by (simp add: filter_empty_conv)
    then have "map (\<lambda>p. if p_id p = pid then p\<lparr>p_stock := p_stock p + d\<rparr> else p) ps = ps"
      by (simp add: map_idI)
    with 1 show ?thesis by simp
  next
    case 2
    then have "cur \<in> set (filter (\<lambda>p. p_id p = pid) ps)" by simp
    then have cur: "cur \<in> set ps" "p_id cur = pid" by simp_all
    with assms(2) have fits: "in_int4 (p_stock cur + d)" by blast
    have "update_where (\<lambda>p. p_id p = pid) (\<lambda>p. p\<lparr>p_stock := p_stock cur + d\<rparr>) ps
          = map (\<lambda>p. if p_id p = pid then p\<lparr>p_stock := p_stock p + d\<rparr> else p) ps"
      unfolding update_where_def
    proof (rule map_cong [OF refl])
      fix p assume "p \<in> set ps"
      show "(if p_id p = pid then p\<lparr>p_stock := p_stock cur + d\<rparr> else p)
            = (if p_id p = pid then p\<lparr>p_stock := p_stock p + d\<rparr> else p)"
      proof (cases "p_id p = pid")
        case True
        from filter_singleton_all [OF 2 \<open>p \<in> set ps\<close> True] show ?thesis by simp
      next
        case False
        then show ?thesis by simp
      qed
    qed
    with 2 fits show ?thesis by simp
  qed
qed

subsection \<open>Order placement\<close>

lemma place_error_unchanged:
  "place st user new_id now body = (Inl e, st') \<Longrightarrow> st' = st"
  by (auto simp: place_def Let_def split: option.splits if_splits sum.splits prod.splits)

lemma price_items_bad_line:
  assumes "\<exists>item\<in>set items.
             filter (\<lambda>p. p_id p = it_product_id item) ps = [] \<or>
             (\<exists>p. filter (\<lambda>p. p_id p = it_product_id item) ps = [p] \<and> p_stock p < it_quantity item)"
  shows "\<exists>e. price_items ps items t acc = Inl e"
  using assms
proof (induction items arbitrary: t acc)
  case Nil
  then show ?case by simp
next
  case (Cons item rest)
  show ?case
  proof (cases "single (filter (\<lambda>p. p_id p = it_product_id item) ps)")
    case None
    then show ?thesis by simp
  next
    case (Some product)
    show ?thesis
    proof (cases "p_stock product < it_quantity item")
      case True
      with Some show ?thesis by simp
    next
      case False
      with Some Cons.prems have "\<exists>item\<in>set rest.
             filter (\<lambda>p. p_id p = it_product_id item) ps = [] \<or>
             (\<exists>p. filter (\<lambda>p. p_id p = it_product_id item) ps = [p] \<and> p_stock p < it_quantity item)"
        by auto
      from Cons.IH [OF this] Some False show ?thesis by (simp add: Let_def)
    qed
  qed
qed

text \<open>The snapshot line that the first loop makes of a request line and its product.\<close>

lemma price_items_success:
  assumes "price_items ps items t acc = Inr (t', acc')"
  shows "\<exists>new. acc' = acc @ new \<and> t' = foldl js_add t (map oi_total new) \<and>
           list_all2 (\<lambda>item oi. \<exists>p. filter (\<lambda>p. p_id p = it_product_id item) ps = [p] \<and>
                         it_quantity item \<le> p_stock p \<and>
                         oi = \<lparr> oi_product_id = p_id p, oi_product_title = p_title p,
                                oi_product_image = p_image_url p,
                                oi_price = js_of_decimal (p_price p),
                                oi_quantity = it_quantity item,
                                oi_total = js_mul (js_of_decimal (p_price p))
                                             (js_of_int (it_quantity item)) \<rparr>) items new"
  using assms
proof (induction items arbitrary: t acc)
  case Nil
  then show ?case by simp
next
  case (Cons item rest)
  from Cons.prems obtain p where p: "filter (\<lambda>p. p_id p = it_product_id item) ps = [p]"
    by (cases "single (filter (\<lambda>p. p_id p = it_product_id item) ps)") auto
  from Cons.prems p have ok: "it_quantity item \<le> p_stock p"
    by (auto split: if_splits)
  define oi where "oi = \<lparr> oi_product_id = p_id p, oi_product_title = p_title p,
                                oi_product_image = p_image_url p,
                                oi_price = js_of_decimal (p_price p),
                                oi_quantity = it_quantity item,
                                oi_total = js_mul (js_of_decimal (p_price p))
                                             (js_of_int (it_quantity item)) \<rparr>"
  from Cons.prems p ok have rec: "price_items ps rest (js_add t (oi_total oi)) (acc @ [oi]) = Inr (t', acc')"
    by (simp add: Let_def oi_def)
  from Cons.IH [OF rec] obtain new where
    new: "acc' = (acc @ [oi]) @ new" "t' = foldl js_add (js_add t (oi_total oi)) (map oi_total new)"
     "list_all2 (\<lambda>item oi. \<exists>p. filter (\<lambda>p. p_id p = it_product_id item) ps = [p] \<and>
                         it_quantity item \<le> p_stock p \<and>
                         oi = \<lparr> oi_product_id = p_id p, oi_product_title = p_title p,
                                oi_product_image = p_image_url p,
                                oi_price = js_of_decimal (p_price p),
                                oi_quantity = it_quantity item,
                                oi_total = js_mul (js_of_decimal (p_price p))
                                             (js_of_int (it_quantity item)) \<rparr>) rest new"
    by blast
  have "acc' = acc @ (oi # new)" using new(1) by simp
  moreover have "t' = foldl js_add t (map oi_total (oi # new))" using new(2) by simp
  moreover have "list_all2 (\<lambda>item oi. \<exists>p. filter (\<lambda>p. p_id p = it_product_id item) ps = [p] \<and>
                         it_quantity item \<le> p_stock p \<and>
                         oi = \<lparr> oi_product_id = p_id p, oi_product_title = p_title p,
                                oi_product_image = p_image_url p,
                                oi_price = js_of_decimal (p_price p),
                                oi_quantity = it_quantity item,
                                oi_total = js_mul (js_of_decimal (p_price p))
                                             (js_of_int (it_quantity item)) \<rparr>) (item # rest) (oi # new)"
    using new(3) p ok by (simp add: oi_def)
  ultimately show ?case by blast
qed

lemma price_items_good_lines:
  assumes "\<forall>item\<in>set items. \<exists>p. filter (\<lambda>p. p_id p = it_product_id item) ps = [p] \<and>
                         it_quantity item \<le> p_stock p"
  shows "\<exists>r. price_items ps items t acc = Inr r"
  using assms
proof (induction items arbitrary: t acc)
  case Nil
  then show ?case by simp
next
  case (Cons item rest)
  then obtain p where p: "filter (\<lambda>p. p_id p = it_product_id item) ps = [p]" "it_quantity item \<le> p_stock p"
    by auto
  from Cons.prems have "\<forall>item\<in>set rest. \<exists>p. filter (\<lambda>p. p_id p = it_product_id item) ps = [p] \<and>
                         it_quantity item \<le> p_stock p" by simp
  from Cons.IH [OF this] p show ?case by (simp add: Let_def)
qed

lemma place_success_cases:
  assumes "place st user new_id now body = (Inr order, st')"
  obtains items shipping_info total_price orderItems where
    "b_items body = Some items" "items \<noteq> []"
    "b_shipping_info body = Some shipping_info" "shipping_ok shipping_info"
    "price_items (products st) items (Num 0) [] = Inr (total_price, orderItems)"
    "numeric_10_2 total_price = Some (o_total_price order)"
    "o_items order = orderItems"
    "orders st' = orders st @ [order]"
    "products st' = decrement_stock items (products st)"
    "cart_items st' = clear_cart (u_id user) (cart_items st)"
  using assms
  by (auto simp: place_def Let_def split: option.splits if_splits sum.splits prod.splits)

lemma put_product_orders: "orders (snd (put_product st a pid updates)) = orders st"
  by (auto simp: put_product_def split: sum.splits option.splits prod.splits)

text \<open>
  The second loop on a table with unique ids, for quantities that are not negative and
  stocks that stay in the range of the column: each stock goes down by the quantities of
  the lines that name the product.
\<close>

lemma decrement_stock_sum:
  assumes "distinct (map p_id ps)"
    and "\<forall>item\<in>set items. 0 \<le> it_quantity item"
    and "\<forall>p\<in>set ps. in_int4 (p_stock p) \<and>
           in_int4 (p_stock p -
             sum_list (map it_quantity (filter (\<lambda>item. it_product_id item = p_id p) items)))"
  shows "decrement_stock items ps =
         map (\<lambda>p. p\<lparr>p_stock := p_stock p -
                 sum_list (map it_quantity (filter (\<lambda>item. it_product_id item = p_id p) items))\<rparr>) ps"
  using assms
proof (induction items arbitrary: ps)
  case Nil
  then show ?case by (simp add: map_idI)
next
  case (Cons item rest)
  let ?pid = "it_product_id item" and ?q = "it_quantity item"
  let ?rest = "\<lambda>p. sum_list (map it_quantity (filter (\<lambda>item. it_product_id item = p_id p) rest))"
  let ?step = "\<lambda>p. if p_id p = ?pid then p\<lparr>p_stock := p_stock p - ?q\<rparr> else p"
  have q: "0 \<le> ?q" and rest_nonneg: "\<And>p. 0 \<le> ?rest p"
    using Cons.prems(2) by (auto intro!: sum_list_nonneg)
  have fits: "\<forall>p\<in>set ps. p_id p = ?pid \<longrightarrow> in_int4 (p_stock p + (- ?q))"
  proof (intro ballI impI)
    fix p assume p: "p \<in> set ps" "p_id p = ?pid"
    with Cons.prems(3) have "in_int4 (p_stock p)" "in_int4 (p_stock p - (?q + ?rest p))"
      by auto
    then show "in_int4 (p_stock p + (- ?q))"
      using q rest_nonneg [of p] by (auto simp: in_int4_def)
  qed
  have ids: "map p_id (map ?step ps) = map p_id ps" by (induction ps) auto
  from Cons.prems(1) have d: "distinct (map p_id (map ?step ps))" by (simp only: ids)
  have r: "\<forall>p\<in>set (map ?step ps). in_int4 (p_stock p) \<and> in_int4 (p_stock p - ?rest p)"
  proof
    fix p' assume "p' \<in> set (map ?step ps)"
    then obtain p where p: "p \<in> set ps" "p' = ?step p" by auto
    from p(1) Cons.prems(3) have range: "in_int4 (p_stock p)"
        "in_int4 (p_stock p - sum_list (map it_quantity
           (filter (\<lambda>i. it_product_id i = p_id p) (item # rest))))"
      by auto
    show "in_int4 (p_stock p') \<and> in_int4 (p_stock p' - ?rest p')"
    proof (cases "p_id p = ?pid")
      case True
      with range have "in_int4 (p_stock p - (?q + ?rest p))" by simp
      with range(1) q rest_nonneg [of p] True p(2) show ?thesis
        by (auto simp: in_int4_def)
    next
      case False
      with range p(2) show ?thesis by simp
    qed
  qed
  have "(case single (filter (\<lambda>p. p_id p = ?pid) ps) of
            None \<Rightarrow> ps
          | Some currentProduct \<Rightarrow>
              if in_int4 (p_stock currentProduct - ?q)
              then update_where (\<lambda>p. p_id p = ?pid) (\<lambda>p. p\<lparr>p_stock := p_stock currentProduct - ?q\<rparr>) ps
              else ps) = map ?step ps"
    by (rule stock_step [OF Cons.prems(1) fits, unfolded add_uminus_conv_diff])
  then have "decrement_stock (item # rest) ps = decrement_stock rest (map ?step ps)"
    by (simp only: decrement_stock.simps)
  also have "\<dots> = map (\<lambda>p. p\<lparr>p_stock := p_stock p - ?rest p\<rparr>) (map ?step ps)"
    using Cons.IH [OF d _ r] Cons.prems(2) by simp
  also have "\<dots> = map (\<lambda>p. p\<lparr>p_stock := p_stock p -
                 sum_list (map it_quantity (filter (\<lambda>i. it_product_id i = p_id p) (item # rest)))\<rparr>) ps"
    by simp
  finally show ?case .
qed

lemmas ex_defs = ex_widget_def ex_gadget_def ex_user_def ex_admin_def ex_address_def
  ex_order_def ex_cart_def ex_users_def ex_db_def ex_db_reason_def ex_body_def ex_placed_def
  ex_db_placed_def ex_db_dime_def ex_body_three_def ex_db_dear_def ex_body_two_def
  schema_orders_columns_def

lemmas js_eval = fl_def ilog2_def round_even_def pow2_def bit_length.simps js_round_def
  js_of_int_def js_of_decimal_def dec2_def numeric_10_2_def Let_def

lemmas place_eval = place_def shipping_ok_def truthy_def field_def Let_def clear_cart_def
  update_where_def has_columns_def insert_columns_def in_int4_def day_ms_def week_ms_def

text \<open>
  Claim C1. Order placement is all-or-nothing. A request whose item list is missing or
  empty, whose shipping information fails the handler's check, or one of whose lines names
  a product that is not in the store or asks for more than that product's current stock is
  answered with an error, and the store after it is the store before it: no order row, no
  stock change, the cart as it was.
\<close>

theorem place_all_or_nothing:
  assumes "b_items body = None \<or> b_items body = Some [] \<or>
           b_shipping_info body = None \<or>
           (\<exists>shipping_info. b_shipping_info body = Some shipping_info \<and>
              (\<not> truthy (field shipping_info ''address'') \<or>
               \<not> truthy (field shipping_info ''city''))) \<or>
           (\<exists>items item. b_items body = Some items \<and> item \<in> set items \<and>
              (filter (\<lambda>p. p_id p = it_product_id item) (products st) = [] \<or>
               (\<exists>p. filter (\<lambda>p. p_id p = it_product_id item) (products st) = [p] \<and>
                    p_stock p < it_quantity item)))"
  shows "\<exists>e. place st user new_id now body = (Inl e, st)"
proof (cases "fst (place st user new_id now body)")
  case (Inl e)
  then have "place st user new_id now body = (Inl e, snd (place st user new_id now body))"
    by (simp add: prod_eq_iff)
  with place_error_unchanged [OF this] show ?thesis by auto
next
  case (Inr order)
  then have "place st user new_id now body = (Inr order, snd (place st user new_id now body))"
    by (simp add: prod_eq_iff)
  then obtain items shipping_info total_price orderItems where
    ok: "b_items body = Some items" "items \<noteq> []"
        "b_shipping_info body = Some shipping_info" "shipping_ok shipping_info"
        "price_items (products st) items (Num 0) [] = Inr (total_price, orderItems)"
    by (rule place_success_cases)
  from assms ok(1-4) have "\<exists>item\<in>set items.
         filter (\<lambda>p. p_id p = it_product_id item) (products st) = [] \<or>
         (\<exists>p. filter (\<lambda>p. p_id p = it_product_id item) (products st) = [p] \<and>
              p_stock p < it_quantity item)"
    by (auto simp: shipping_ok_def)
  from price_items_bad_line [OF this, of "Num 0" "[]"] ok(5) show ?thesis by auto
qed

theorem place_all_or_nothing_witness:
  "\<exists>e. place ex_db ex_user ''o2'' 0
          \<lparr> b_items = Some [\<lparr> it_product_id = ''p1'', it_quantity = 5 \<rparr>],
            b_shipping_info = Some ex_address, b_payment_method = None \<rparr> = (Inl e, ex_db)"
  by (rule place_all_or_nothing) (simp add: ex_defs)

text \<open>
  Claim C8 says that placement rejects a shipping address that lacks the full name, the
  state, the postal code or the phone. The handler looks at \<open>address\<close> and \<open>city\<close>
  only: an address with just these two is accepted and the order is stored.
\<close>

theorem place_shipping_fields_counterexample:
  "field ex_address ''full_name'' = None \<and> field ex_address ''state'' = None \<and>
   field ex_address ''postal_code'' = None \<and> field ex_address ''phone'' = None \<and>
   b_shipping_info ex_body = Some ex_address \<and>
   place ex_db ex_user ''o2'' 0 ex_body = (Inr ex_placed, ex_db_placed)"
  by (simp add: place_eval js_eval ex_defs)

text \<open>
  Claim C8, amended. Placement answers 400 Items are required when the item list is
  missing or empty, and 400 Shipping information is required when the list is not empty
  and the shipping information is missing or has no non-empty \<open>address\<close> or
  \<open>city\<close>. When both are there, the request passes validation whatever other
  shipping fields it has or lacks.
\<close>

theorem place_validation:
  "(b_items body = None \<or> b_items body = Some [] \<longrightarrow>
      place st user new_id now body = (Inl ItemsRequired, st)) \<and>
   (\<forall>items. b_items body = Some items \<and> items \<noteq> [] \<longrightarrow>
      (b_shipping_info body = None \<longrightarrow>
         place st user new_id now body = (Inl ShippingRequired, st)) \<and>
      (\<forall>shipping_info. b_shipping_info body = Some shipping_info \<longrightarrow>
         (\<not> truthy (field shipping_info ''address'') \<or> \<not> truthy (field shipping_info ''city'') \<longrightarrow>
            place st user new_id now body = (Inl ShippingRequired, st)) \<and>
         (truthy (field shipping_info ''address'') \<and> truthy (field shipping_info ''city'') \<longrightarrow>
            fst (place st user new_id now body) \<noteq> Inl ItemsRequired \<and>
            fst (place st user new_id now body) \<noteq> Inl ShippingRequired)))"
proof -
  have no_validation_error:
    "price_items ps items t acc \<noteq> Inl ItemsRequired \<and>
     price_items ps items t acc \<noteq> Inl ShippingRequired" for ps items t acc
    by (induction items arbitrary: t acc) (auto simp: Let_def split: option.splits)
  show ?thesis
  proof (intro conjI allI impI)
    assume "b_items body = None \<or> b_items body = Some []"
    then show "place st user new_id now body = (Inl ItemsRequired, st)"
      by (auto simp: place_def)
  next
    fix items
    assume "b_items body = Some items \<and> items \<noteq> []" "b_shipping_info body = None"
    then show "place st user new_id now body = (Inl ShippingRequired, st)"
      by (simp add: place_def)
  next
    fix items shipping_info
    assume "b_items body = Some items \<and> items \<noteq> []" "b_shipping_info body = Some shipping_info"
      "\<not> truthy (field shipping_info ''address'') \<or> \<not> truthy (field shipping_info ''city'')"
    then show "place st user new_id now body = (Inl ShippingRequired, st)"
      by (auto simp: place_def shipping_ok_def)
  next
    fix items shipping_info
    assume a: "b_items body = Some items \<and> items \<noteq> []" "b_shipping_info body = Some shipping_info"
      "truthy (field shipping_info ''address'') \<and> truthy (field shipping_info ''city'')"
    with no_validation_error [of "products st" items "Num 0" "[]"]
    show "fst (place st user new_id now body) \<noteq> Inl ItemsRequired"
      by (auto simp: place_def shipping_ok_def Let_def split: sum.splits prod.splits option.splits)
  next
    fix items shipping_info
    assume a: "b_items body = Some items \<and> items \<noteq> []" "b_shipping_info body = Some shipping_info"
      "truthy (field shipping_info ''address'') \<and> truthy (field shipping_info ''city'')"
    with no_validation_error [of "products st" items "Num 0" "[]"]
    show "fst (place st user new_id now body) \<noteq> Inl ShippingRequired"
      by (auto simp: place_def shipping_ok_def Let_def split: sum.splits prod.splits option.splits)
  qed
qed

theorem place_validation_witness:
  "place ex_db ex_user ''o2'' 0 (ex_body\<lparr>b_items := Some []\<rparr>) = (Inl ItemsRequired, ex_db) \<and>
   place ex_db ex_user ''o2'' 0 (ex_body\<lparr>b_shipping_info := Some [(''address'', ''1 Main St'')]\<rparr>)
     = (Inl ShippingRequired, ex_db) \<and>
   fst (place ex_db ex_user ''o2'' 0 ex_body) \<noteq> Inl ShippingRequired"
proof -
  have 1: "place ex_db ex_user ''o2'' 0 (ex_body\<lparr>b_items := Some []\<rparr>) = (Inl ItemsRequired, ex_db)"
    using place_validation [of "ex_body\<lparr>b_items := Some []\<rparr>" ex_db ex_user "''o2''" 0] by simp
  have 2: "place ex_db ex_user ''o2'' 0 (ex_body\<lparr>b_shipping_info := Some [(''address'', ''1 Main St'')]\<rparr>)
     = (Inl ShippingRequired, ex_db)"
    using place_validation [of "ex_body\<lparr>b_shipping_info := Some [(''address'', ''1 Main St'')]\<rparr>"
        ex_db ex_user "''o2''" 0]
    by (simp add: ex_body_def truthy_def field_def)
  have 3: "fst (place ex_db ex_user ''o2'' 0 ex_body) \<noteq> Inl ShippingRequired"
    using place_validation [of ex_body ex_db ex_user "''o2''" 0]
    by (simp add: ex_body_def ex_address_def truthy_def field_def)
  from 1 2 3 show ?thesis by simp
qed

text \<open>
  Claim C4 says that the stored order total equals the sum of the stored line totals. The
  handler adds the line totals as binary64 numbers and the store rounds the total to two
  decimals, while the line totals stay in the \<open>items\<close> column as they were computed:
  for three items at a tenth each the line total is the binary64 product, a little above
  three tenths, and the stored total is three tenths.
\<close>

theorem place_totals_counterexample:
  "place ex_db_dime ex_user ''o2'' 0 ex_body_three =
     (Inr \<lparr> o_id = ''o2'', o_user_id = ''u1'',
            o_items = [\<lparr> oi_product_id = ''p2'', oi_product_title = ''Gadget'',
                         oi_product_image = None,
                         oi_price = Num (3602879701896397 / 36028797018963968),
                         oi_quantity = 3,
                         oi_total = Num (5404319552844596 / 18014398509481984) \<rparr>],
            o_shipping_info = ex_address, o_total_price = 3 / 10, o_payment_method = ''card'',
            o_status = ''pending'', o_payment_status = ''pending'', o_estimated_delivery = 7,
            o_tracking_number = None, o_cancellation_reason = None \<rparr>,
      ex_db_dime
        \<lparr> orders := [ex_order,
             \<lparr> o_id = ''o2'', o_user_id = ''u1'',
               o_items = [\<lparr> oi_product_id = ''p2'', oi_product_title = ''Gadget'',
                            oi_product_image = None,
                            oi_price = Num (3602879701896397 / 36028797018963968),
                            oi_quantity = 3,
                            oi_total = Num (5404319552844596 / 18014398509481984) \<rparr>],
               o_shipping_info = ex_address, o_total_price = 3 / 10, o_payment_method = ''card'',
               o_status = ''pending'', o_payment_status = ''pending'', o_estimated_delivery = 7,
               o_tracking_number = None, o_cancellation_reason = None \<rparr>],
          products := [ex_gadget\<lparr>p_price := 1 / 10, p_stock := 1\<rparr>],
          cart_items := [\<lparr> ci_id = ''c2'', ci_user_id = ''u2'', ci_product_id = ''p1'',
                           ci_quantity = 2 \<rparr>] \<rparr>) \<and>
   (3 / 10 :: real) \<noteq> 5404319552844596 / 18014398509481984"
  by (simp add: place_eval js_eval ex_defs)

text \<open>
  Claim C4, amended. After a successful placement every stored line carries the price as
  the handler read it, the requested quantity and, as its total, their product in
  JavaScript arithmetic; the stored order total is the sum of the line totals, added from
  zero in the order of the lines in JavaScript arithmetic, as the \<open>DECIMAL(10,2)\<close>
  column keeps it (rounded to two decimals). The order row is in the store, and it is still
  there, unchanged, after any later product update by an admin.
\<close>

theorem place_totals:
  assumes "place st user new_id now body = (Inr order, st')"
  shows "(\<exists>items. b_items body = Some items \<and>
            list_all2 (\<lambda>item oi. \<exists>p. filter (\<lambda>p. p_id p = it_product_id item) (products st) = [p] \<and>
                         oi_price oi = js_of_decimal (p_price p) \<and>
                         oi_quantity oi = it_quantity item \<and>
                         oi_total oi = js_mul (js_of_decimal (p_price p))
                                         (js_of_int (it_quantity item)))
              items (o_items order)) \<and>
         numeric_10_2 (foldl js_add (Num 0) (map oi_total (o_items order)))
           = Some (o_total_price order) \<and>
         order \<in> set (orders st') \<and>
         order \<in> set (orders (snd (put_product st' admin product_id updates)))"
proof -
  from assms obtain items total_price orderItems where
    f: "b_items body = Some items"
    "price_items (products st) items (Num 0) [] = Inr (total_price, orderItems)"
    "numeric_10_2 total_price = Some (o_total_price order)"
    "o_items order = orderItems"
    "orders st' = orders st @ [order]"
    by (rule place_success_cases)
  from price_items_success [OF f(2)] obtain new where
    n: "orderItems = new" "total_price = foldl js_add (Num 0) (map oi_total new)"
    "list_all2 (\<lambda>item oi. \<exists>p. filter (\<lambda>p. p_id p = it_product_id item) (products st) = [p] \<and>
                         it_quantity item \<le> p_stock p \<and>
                         oi = \<lparr> oi_product_id = p_id p, oi_product_title = p_title p,
                                oi_product_image = p_image_url p,
                                oi_price = js_of_decimal (p_price p),
                                oi_quantity = it_quantity item,
                                oi_total = js_mul (js_of_decimal (p_price p))
                                             (js_of_int (it_quantity item)) \<rparr>) items new"
    by auto
  have "list_all2 (\<lambda>item oi. \<exists>p. filter (\<lambda>p. p_id p = it_product_id item) (products st) = [p] \<and>
                         oi_price oi = js_of_decimal (p_price p) \<and>
                         oi_quantity oi = it_quantity item \<and>
                         oi_total oi = js_mul (js_of_decimal (p_price p))
                                         (js_of_int (it_quantity item)))
              items (o_items order)"
    using n(3) unfolding f(4) n(1) by (rule list_all2_mono) auto
  moreover have "numeric_10_2 (foldl js_add (Num 0) (map oi_total (o_items order)))
                   = Some (o_total_price order)"
    using f(3,4) n(1,2) by simp
  moreover have "order \<in> set (orders st')" using f(5) by simp
  ultimately show ?thesis using f(1) by (simp add: put_product_orders)
qed

theorem place_totals_witness:
  "place ex_db ex_user ''o2'' 0 ex_body = (Inr ex_placed, ex_db_placed) \<and>
   map oi_total (o_items ex_placed) = [Num 20, Num 5] \<and>
   numeric_10_2 (foldl js_add (Num 0) (map oi_total (o_items ex_placed))) = Some 25 \<and>
   o_total_price ex_placed = 25 \<and>
   ex_placed \<in> set (orders (snd (put_product ex_db_placed (Some ex_admin) ''p1''
      \<lparr> up_title = None, up_price = Some 99, up_stock = None, up_approved_by_ai = None \<rparr>)))"
proof -
  have run: "place ex_db ex_user ''o2'' 0 ex_body = (Inr ex_placed, ex_db_placed)"
    by (simp add: place_eval js_eval ex_defs)
  from place_totals [OF run, of "Some ex_admin" "''p1''"
      "\<lparr> up_title = None, up_price = Some 99, up_stock = None, up_approved_by_ai = None \<rparr>"]
  show ?thesis using run by (simp add: ex_placed_def)
qed

text \<open>
  Claim C9 says that placement succeeds for every line of an existing product with
  sufficient stock, approved or not. The insert of the order row can be rejected by the
  store: two items at sixty million each make a total that \<open>DECIMAL(10,2)\<close> cannot
  hold, and the handler answers 500 for the unapproved gadget in stock.
\<close>

theorem place_rejected_total_counterexample:
  "products ex_db_dear = [ex_gadget\<lparr>p_price := 60000000\<rparr>] \<and>
   p_id ex_gadget = ''p2'' \<and> p_stock ex_gadget = 4 \<and> p_approved_by_ai ex_gadget = False \<and>
   b_items ex_body_two = Some [\<lparr> it_product_id = ''p2'', it_quantity = 2 \<rparr>] \<and>
   place ex_db_dear ex_user ''o2'' 0 ex_body_two = (Inl StoreError, ex_db_dear)"
  by (simp add: place_eval js_eval ex_defs)

text \<open>
  Claim C9, amended. Placement does not look at the approval flag. Let the table
  \<open>orders\<close> have the columns of \<open>complete-schema.sql\<close>, let every line name a
  product that is in the store (ids unique), with a quantity that is not negative and not
  above the stock, let the stocks stay in the range of their column, and let the caller
  have a row in \<open>users\<close>. Then the first loop prices every line, also the line of an
  unapproved product, and what follows depends only on the total: when the store accepts
  it, placement succeeds, the order with one snapshot line for every requested line is
  appended to the orders, every stock goes down by the quantities ordered of the product
  and the caller's cart is emptied; when the store rejects it, placement answers 500 and
  changes nothing. Adding the same unapproved product to the cart is answered with
  404 Product not found.
\<close>

theorem place_ignores_approval:
  assumes "set schema_orders_columns \<subseteq> set (orders_columns st)"
    and "u_id user \<in> set (map ur_id (users st))"
    and "distinct (map p_id (products st))"
    and "items \<noteq> []"
    and "\<forall>item\<in>set items. 0 \<le> it_quantity item \<and>
           (\<exists>p. filter (\<lambda>p. p_id p = it_product_id item) (products st) = [p] \<and>
                it_quantity item \<le> p_stock p)"
    and "\<forall>p\<in>set (products st). in_int4 (p_stock p) \<and>
           in_int4 (p_stock p -
             sum_list (map it_quantity (filter (\<lambda>item. it_product_id item = p_id p) items)))"
    and "truthy (field shipping_info ''address'')" and "truthy (field shipping_info ''city'')"
    and "item \<in> set items"
    and "filter (\<lambda>p. p_id p = it_product_id item) (products st) = [p]"
    and "\<not> p_approved_by_ai p"
    and "it_product_id item \<noteq> []"
    and "case quantity of None \<Rightarrow> True | Some q \<Rightarrow> 0 < q"
  shows "(\<exists>total_price orderItems.
            price_items (products st) items (Num 0) [] = Inr (total_price, orderItems) \<and>
            total_price = foldl js_add (Num 0) (map oi_total orderItems) \<and>
            list_all2 (\<lambda>item oi. \<exists>p. filter (\<lambda>p. p_id p = it_product_id item) (products st) = [p] \<and>
                          oi = \<lparr> oi_product_id = p_id p, oi_product_title = p_title p,
                                 oi_product_image = p_image_url p,
                                 oi_price = js_of_decimal (p_price p),
                                 oi_quantity = it_quantity item,
                                 oi_total = js_mul (js_of_decimal (p_price p))
                                              (js_of_int (it_quantity item)) \<rparr>) items orderItems \<and>
            (case numeric_10_2 total_price of
               None \<Rightarrow>
                 place st user new_id now
                   \<lparr> b_items = Some items, b_shipping_info = Some shipping_info,
                     b_payment_method = payment_method \<rparr> = (Inl StoreError, st)
             | Some stored_total \<Rightarrow>
                 (let order =
                        \<lparr> o_id = new_id, o_user_id = u_id user, o_items = orderItems,
                          o_shipping_info = shipping_info, o_total_price = stored_total,
                          o_payment_method =
                            (case payment_method of None \<Rightarrow> ''card'' | Some m \<Rightarrow> m),
                          o_status = ''pending'', o_payment_status = ''pending'',
                          o_estimated_delivery = (now + week_ms) div day_ms,
                          o_tracking_number = None, o_cancellation_reason = None \<rparr>
                  in place st user new_id now
                       \<lparr> b_items = Some items, b_shipping_info = Some shipping_info,
                         b_payment_method = payment_method \<rparr> =
                     (Inr order,
                      st\<lparr> orders := orders st @ [order],
                          products :=
                            map (\<lambda>p. p\<lparr>p_stock := p_stock p -
                                   sum_list (map it_quantity
                                     (filter (\<lambda>item. it_product_id item = p_id p) items))\<rparr>)
                              (products st),
                          cart_items := filter (\<lambda>c. ci_user_id c \<noteq> u_id user) (cart_items st) \<rparr>)))) \<and>
         cart_add st user new_line_id
            \<lparr> cb_product_id = Some (it_product_id item), cb_quantity = quantity \<rparr>
           = (Inl CartProductNotFound, st)"
proof -
  have lines: "\<forall>item\<in>set items. \<exists>p. filter (\<lambda>p. p_id p = it_product_id item) (products st) = [p] \<and>
                         it_quantity item \<le> p_stock p"
    and nonneg: "\<forall>item\<in>set items. 0 \<le> it_quantity item"
    using assms(5) by auto
  from price_items_good_lines [OF lines, of "Num 0" "[]"]
  obtain total_price orderItems where
    run: "price_items (products st) items (Num 0) [] = Inr (total_price, orderItems)" by auto
  from price_items_success [OF run] have
    tot: "total_price = foldl js_add (Num 0) (map oi_total orderItems)"
    and snap: "list_all2 (\<lambda>item oi. \<exists>p. filter (\<lambda>p. p_id p = it_product_id item) (products st) = [p] \<and>
                         it_quantity item \<le> p_stock p \<and>
                          oi = \<lparr> oi_product_id = p_id p, oi_product_title = p_title p,
                                 oi_product_image = p_image_url p,
                                 oi_price = js_of_decimal (p_price p),
                                 oi_quantity = it_quantity item,
                                 oi_total = js_mul (js_of_decimal (p_price p))
                                              (js_of_int (it_quantity item)) \<rparr>) items orderItems"
    by auto
  have snap': "list_all2 (\<lambda>item oi. \<exists>p. filter (\<lambda>p. p_id p = it_product_id item) (products st) = [p] \<and>
                          oi = \<lparr> oi_product_id = p_id p, oi_product_title = p_title p,
                                 oi_product_image = p_image_url p,
                                 oi_price = js_of_decimal (p_price p),
                                 oi_quantity = it_quantity item,
                                 oi_total = js_mul (js_of_decimal (p_price p))
                                              (js_of_int (it_quantity item)) \<rparr>) items orderItems"
    using snap by (rule list_all2_mono) auto
  have cols: "has_columns st insert_columns"
    using assms(1) by (auto simp: has_columns_def insert_columns_def schema_orders_columns_def)
  have stock: "decrement_stock items (products st) =
         map (\<lambda>p. p\<lparr>p_stock := p_stock p -
                 sum_list (map it_quantity (filter (\<lambda>item. it_product_id item = p_id p) items))\<rparr>)
           (products st)"
    by (rule decrement_stock_sum [OF assms(3) nonneg assms(6)])
  have placed: "case numeric_10_2 total_price of
               None \<Rightarrow>
                 place st user new_id now
                   \<lparr> b_items = Some items, b_shipping_info = Some shipping_info,
                     b_payment_method = payment_method \<rparr> = (Inl StoreError, st)
             | Some stored_total \<Rightarrow>
                 (let order =
                        \<lparr> o_id = new_id, o_user_id = u_id user, o_items = orderItems,
                          o_shipping_info = shipping_info, o_total_price = stored_total,
                          o_payment_method =
                            (case payment_method of None \<Rightarrow> ''card'' | Some m \<Rightarrow> m),
                          o_status = ''pending'', o_payment_status = ''pending'',
                          o_estimated_delivery = (now + week_ms) div day_ms,
                          o_tracking_number = None, o_cancellation_reason = None \<rparr>
                  in place st user new_id now
                       \<lparr> b_items = Some items, b_shipping_info = Some shipping_info,
                         b_payment_method = payment_method \<rparr> =
                     (Inr order,
                      st\<lparr> orders := orders st @ [order],
                          products :=
                            map (\<lambda>p. p\<lparr>p_stock := p_stock p -
                                   sum_list (map it_quantity
                                     (filter (\<lambda>item. it_product_id item = p_id p) items))\<rparr>)
                              (products st),
                          cart_items := filter (\<lambda>c. ci_user_id c \<noteq> u_id user) (cart_items st) \<rparr>))"
    using assms(2,4,7,8) run cols stock
    by (simp add: place_def shipping_ok_def Let_def clear_cart_def split: option.splits)
  have "filter (\<lambda>p. p_id p = it_product_id item \<and> p_approved_by_ai p) (products st) = []"
  proof -
    have "filter (\<lambda>p. p_id p = it_product_id item \<and> p_approved_by_ai p) (products st)
          = filter p_approved_by_ai (filter (\<lambda>p. p_id p = it_product_id item) (products st))"
      by (simp add: conj_commute)
    with assms(10,11) show ?thesis by simp
  qed
  with assms(12,13) have cart: "cart_add st user new_line_id
            \<lparr> cb_product_id = Some (it_product_id item), cb_quantity = quantity \<rparr>
           = (Inl CartProductNotFound, st)"
    by (auto simp: cart_add_def split: option.splits)
  from run tot snap' placed cart show ?thesis by blast
qed

theorem place_ignores_approval_witness:
  "place ex_db ex_user ''o2'' 0
     \<lparr> b_items = Some [\<lparr> it_product_id = ''p2'', it_quantity = 1 \<rparr>],
       b_shipping_info = Some ex_address, b_payment_method = None \<rparr> =
     (Inr \<lparr> o_id = ''o2'', o_user_id = ''u1'',
            o_items = [\<lparr> oi_product_id = ''p2'', oi_product_title = ''Gadget'',
                         oi_product_image = None, oi_price = Num 5, oi_quantity = 1,
                         oi_total = Num 5 \<rparr>],
            o_shipping_info = ex_address, o_total_price = 5, o_payment_method = ''card'',
            o_status = ''pending'', o_payment_status = ''pending'', o_estimated_delivery = 7,
            o_tracking_number = None, o_cancellation_reason = None \<rparr>,
      ex_db\<lparr> orders := [ex_order,
                \<lparr> o_id = ''o2'', o_user_id = ''u1'',
                  o_items = [\<lparr> oi_product_id = ''p2'', oi_product_title = ''Gadget'',
                               oi_product_image = None, oi_price = Num 5, oi_quantity = 1,
                               oi_total = Num 5 \<rparr>],
                  o_shipping_info = ex_address, o_total_price = 5, o_payment_method = ''card'',
                  o_status = ''pending'', o_payment_status = ''pending'',
                  o_estimated_delivery = 7,
                  o_tracking_number = None, o_cancellation_reason = None \<rparr>],
             products := [ex_widget, ex_gadget\<lparr>p_stock := 3\<rparr>],
             cart_items := [\<lparr> ci_id = ''c2'', ci_user_id = ''u2'', ci_product_id = ''p1'',
                              ci_quantity = 2 \<rparr>] \<rparr>) \<and>
   cart_add ex_db ex_user ''c3'' \<lparr> cb_product_id = Some ''p2'', cb_quantity = Some 1 \<rparr>
     = (Inl CartProductNotFound, ex_db)"
proof -
  let ?line = "\<lparr> it_product_id = ''p2'', it_quantity = 1 \<rparr>"
  have run: "price_items (products ex_db) [?line] (Num 0) [] =
        Inr (Num 5, [\<lparr> oi_product_id = ''p2'', oi_product_title = ''Gadget'',
                         oi_product_image = None, oi_price = Num 5, oi_quantity = 1,
                         oi_total = Num 5 \<rparr>])"
    by (simp add: js_eval ex_defs Let_def)
  have stored: "numeric_10_2 (Num 5) = Some 5"
    by (simp add: js_eval Let_def)
  have "set schema_orders_columns \<subseteq> set (orders_columns ex_db)"
    and "u_id ex_user \<in> set (map ur_id (users ex_db))"
    and "distinct (map p_id (products ex_db))"
    and "[?line] \<noteq> []"
    and "\<forall>item\<in>set [?line]. 0 \<le> it_quantity item \<and>
           (\<exists>p. filter (\<lambda>p. p_id p = it_product_id item) (products ex_db) = [p] \<and>
                it_quantity item \<le> p_stock p)"
    and "\<forall>p\<in>set (products ex_db). in_int4 (p_stock p) \<and>
           in_int4 (p_stock p -
             sum_list (map it_quantity (filter (\<lambda>item. it_product_id item = p_id p) [?line])))"
    and "truthy (field ex_address ''address'')" and "truthy (field ex_address ''city'')"
    and "?line \<in> set [?line]"
    and "filter (\<lambda>p. p_id p = it_product_id ?line) (products ex_db) = [ex_gadget]"
    and "\<not> p_approved_by_ai ex_gadget"
    and "it_product_id ?line \<noteq> []"
    and "case Some (1::int) of None \<Rightarrow> True | Some q \<Rightarrow> 0 < q"
    by (simp_all add: ex_defs truthy_def field_def in_int4_def)
  from place_ignores_approval [OF this, of "''o2''" 0 None "''c3''"]
  obtain total_price orderItems where
    a: "price_items (products ex_db) [?line] (Num 0) [] = Inr (total_price, orderItems)"
    and b: "case numeric_10_2 total_price of
               None \<Rightarrow>
                 place ex_db ex_user ''o2'' 0
                   \<lparr> b_items = Some [?line], b_shipping_info = Some ex_address,
                     b_payment_method = None \<rparr> = (Inl StoreError, ex_db)
             | Some stored_total \<Rightarrow>
                 (let order =
                        \<lparr> o_id = ''o2'', o_user_id = u_id ex_user, o_items = orderItems,
                          o_shipping_info = ex_address, o_total_price = stored_total,
                          o_payment_method =
                            (case None of None \<Rightarrow> ''card'' | Some m \<Rightarrow> m),
                          o_status = ''pending'', o_payment_status = ''pending'',
                          o_estimated_delivery = (0 + week_ms) div day_ms,
                          o_tracking_number = None, o_cancellation_reason = None \<rparr>
                  in place ex_db ex_user ''o2'' 0
                       \<lparr> b_items = Some [?line], b_shipping_info = Some ex_address,
                         b_payment_method = None \<rparr> =
                     (Inr order,
                      ex_db\<lparr> orders := orders ex_db @ [order],
                          products :=
                            map (\<lambda>p. p\<lparr>p_stock := p_stock p -
                                   sum_list (map it_quantity
                                     (filter (\<lambda>item. it_product_id item = p_id p) [?line]))\<rparr>)
                              (products ex_db),
                          cart_items := filter (\<lambda>c. ci_user_id c \<noteq> u_id ex_user) (cart_items ex_db) \<rparr>))"
    and c: "cart_add ex_db ex_user ''c3''
              \<lparr> cb_product_id = Some (it_product_id ?line), cb_quantity = Some 1 \<rparr>
            = (Inl CartProductNotFound, ex_db)"
    by blast
  from a [unfolded run] have tp: "total_price = Num 5"
    "orderItems = [\<lparr> oi_product_id = ''p2'', oi_product_title = ''Gadget'',
                         oi_product_image = None, oi_price = Num 5, oi_quantity = 1,
                         oi_total = Num 5 \<rparr>]"
    by auto
  note placed = b [unfolded tp stored option.case Let_def]
  have "(0 + week_ms) div day_ms = 7" by (simp add: week_ms_def day_ms_def)
  with placed c show ?thesis
    by (simp add: ex_defs)
qed

subsection \<open>Cancellation\<close>

text \<open>
  The restore loop on a table with unique ids, for quantities that are not negative and
  stocks that stay in the range of the column: each stock goes up by the quantities of
  the lines that name the product.
\<close>

lemma restore_stock_sum:
  assumes "distinct (map p_id ps)"
    and "\<forall>item\<in>set items. 0 \<le> oi_quantity item"
    and "\<forall>p\<in>set ps. in_int4 (p_stock p) \<and>
           in_int4 (p_stock p +
             sum_list (map oi_quantity (filter (\<lambda>item. oi_product_id item = p_id p) items)))"
  shows "restore_stock items ps =
         map (\<lambda>p. p\<lparr>p_stock := p_stock p +
                 sum_list (map oi_quantity (filter (\<lambda>item. oi_product_id item = p_id p) items))\<rparr>) ps"
  using assms
proof (induction items arbitrary: ps)
  case Nil
  then show ?case by (simp add: map_idI)
next
  case (Cons item rest)
  let ?pid = "oi_product_id item" and ?q = "oi_quantity item"
  let ?rest = "\<lambda>p. sum_list (map oi_quantity (filter (\<lambda>item. oi_product_id item = p_id p) rest))"
  let ?step = "\<lambda>p. if p_id p = ?pid then p\<lparr>p_stock := p_stock p + ?q\<rparr> else p"
  have q: "0 \<le> ?q" and rest_nonneg: "\<And>p. 0 \<le> ?rest p"
    using Cons.prems(2) by (auto intro!: sum_list_nonneg)
  have fits: "\<forall>p\<in>set ps. p_id p = ?pid \<longrightarrow> in_int4 (p_stock p + ?q)"
  proof (intro ballI impI)
    fix p assume p: "p \<in> set ps" "p_id p = ?pid"
    with Cons.prems(3) have "in_int4 (p_stock p)" "in_int4 (p_stock p + (?q + ?rest p))"
      by auto
    then show "in_int4 (p_stock p + ?q)"
      using q rest_nonneg [of p] by (auto simp: in_int4_def)
  qed
  have ids: "map p_id (map ?step ps) = map p_id ps" by (induction ps) auto
  from Cons.prems(1) have d: "distinct (map p_id (map ?step ps))" by (simp only: ids)
  have r: "\<forall>p\<in>set (map ?step ps). in_int4 (p_stock p) \<and> in_int4 (p_stock p + ?rest p)"
  proof
    fix p' assume "p' \<in> set (map ?step ps)"
    then obtain p where p: "p \<in> set ps" "p' = ?step p" by auto
    from p(1) Cons.prems(3) have range: "in_int4 (p_stock p)"
        "in_int4 (p_stock p + sum_list (map oi_quantity
           (filter (\<lambda>i. oi_product_id i = p_id p) (item # rest))))"
      by auto
    show "in_int4 (p_stock p') \<and> in_int4 (p_stock p' + ?rest p')"
    proof (cases "p_id p = ?pid")
      case True
      with range have "in_int4 (p_stock p + (?q + ?rest p))" by simp
      with range(1) q rest_nonneg [of p] True p(2) show ?thesis
        by (auto simp: in_int4_def)
    next
      case False
      with range p(2) show ?thesis by simp
    qed
  qed
  have "restore_stock (item # rest) ps = restore_stock rest (map ?step ps)"
    using stock_step [OF Cons.prems(1) fits] by simp
  also have "\<dots> = map (\<lambda>p. p\<lparr>p_stock := p_stock p + ?rest p\<rparr>) (map ?step ps)"
    using Cons.IH [OF d _ r] Cons.prems(2) by simp
  also have "\<dots> = map (\<lambda>p. p\<lparr>p_stock := p_stock p +
                 sum_list (map oi_quantity (filter (\<lambda>i. oi_product_id i = p_id p) (item # rest)))\<rparr>) ps"
    by (simp add: add.assoc)
  finally show ?case .
qed

text \<open>
  On a store whose table \<open>orders\<close> has the column \<open>cancellation_reason\<close>, cancelling a
  pending or processing order sets the status and the reason and adds the quantities of
  the order's lines to the stocks.
\<close>

lemma cancel_with_column:
  assumes "has_columns st [''status'', ''cancellation_reason'']"
    and "distinct (map p_id (products st))"
    and "filter (\<lambda>r. o_id r = order_id) (orders st) = [ord]"
    and "u_role user = ''admin'' \<or> o_user_id ord = u_id user"
    and "o_status ord = ''pending'' \<or> o_status ord = ''processing''"
    and "\<forall>item\<in>set (o_items ord). 0 \<le> oi_quantity item"
    and "\<forall>p\<in>set (products st). in_int4 (p_stock p) \<and>
           in_int4 (p_stock p +
             sum_list (map oi_quantity
               (filter (\<lambda>item. oi_product_id item = p_id p) (o_items ord))))"
  shows "cancel st user order_id reason =
           (Inr (ord\<lparr>o_status := ''cancelled'',
                      o_cancellation_reason := Some (cancellation_reason reason)\<rparr>),
            st\<lparr>orders := update_where (\<lambda>r. o_id r = order_id)
                  (\<lambda>r. r\<lparr>o_status := ''cancelled'',
                          o_cancellation_reason := Some (cancellation_reason reason)\<rparr>) (orders st),
               products :=
                 map (\<lambda>p. p\<lparr>p_stock := p_stock p +
                         sum_list (map oi_quantity
                           (filter (\<lambda>item. oi_product_id item = p_id p) (o_items ord)))\<rparr>)
                   (products st)\<rparr>)"
proof -
  let ?f = "\<lambda>r. r\<lparr>o_status := ''cancelled'',
                    o_cancellation_reason := Some (cancellation_reason reason)\<rparr>"
  have upd: "update_single (\<lambda>r. o_id r = order_id) ?f (orders st)
             = Some (?f ord, update_where (\<lambda>r. o_id r = order_id) ?f (orders st))"
    using assms(3) by (simp add: update_single_def)
  show ?thesis
    using assms(1,3,4,5) upd restore_stock_sum [OF assms(2,6,7)]
    by (auto simp: cancel_def Let_def)
qed

text \<open>Cancelling a shipped or delivered order is refused and changes nothing.\<close>

lemma cancel_shipped_or_delivered:
  assumes "filter (\<lambda>r. o_id r = order_id) (orders st) = [ord]"
    and "u_role user = ''admin'' \<or> o_user_id ord = u_id user"
    and "o_status ord = ''shipped'' \<or> o_status ord = ''delivered''"
  shows "cancel st user order_id reason = (Inl CannotCancel, st)"
  using assms by (auto simp: cancel_def)

text \<open>
  On a store whose table \<open>orders\<close> has no column \<open>cancellation_reason\<close>, every
  cancellation that passes the handler's checks is answered with 500 and changes nothing.
\<close>

lemma cancel_without_column:
  assumes "''cancellation_reason'' \<notin> set (orders_columns st)"
    and "filter (\<lambda>r. o_id r = order_id) (orders st) = [ord]"
    and "u_role user = ''admin'' \<or> o_user_id ord = u_id user"
    and "o_status ord \<noteq> ''shipped''" and "o_status ord \<noteq> ''delivered''"
  shows "cancel st user order_id reason = (Inl StoreError, st)"
  using assms by (auto simp: cancel_def has_columns_def)


text \<open>
  Claim C2. A cancelled order should not be cancellable again. The handler refuses only
  shipped and delivered orders. Where the table has the column that the update writes, the
  owner's second cancellation of the same order is answered with success and the stock of
  its lines is added a second time: the widget's stock goes from 3 to 5 and then to 7 for
  an order of two. Where the table is the one of \<open>complete-schema.sql\<close>, the
  cancellation of a cancelled order is answered with 500. In neither case is it refused
  as the cancellation of a shipped order is.
\<close>

theorem cancel_twice_restores_twice:
  "map p_stock (products ex_db_reason) = [3, 4] \<and>
   cancel ex_db_reason ex_user ''o1'' None =
     (Inr (ex_order\<lparr>o_status := ''cancelled'',
                     o_cancellation_reason := Some ''User requested cancellation''\<rparr>),
      ex_db_reason\<lparr>orders := [ex_order\<lparr>o_status := ''cancelled'',
                     o_cancellation_reason := Some ''User requested cancellation''\<rparr>],
            products := [ex_widget\<lparr>p_stock := 5\<rparr>, ex_gadget]\<rparr>) \<and>
   cancel (ex_db_reason\<lparr>orders := [ex_order\<lparr>o_status := ''cancelled'',
                     o_cancellation_reason := Some ''User requested cancellation''\<rparr>],
            products := [ex_widget\<lparr>p_stock := 5\<rparr>, ex_gadget]\<rparr>) ex_user ''o1'' None =
     (Inr (ex_order\<lparr>o_status := ''cancelled'',
                     o_cancellation_reason := Some ''User requested cancellation''\<rparr>),
      ex_db_reason\<lparr>orders := [ex_order\<lparr>o_status := ''cancelled'',
                     o_cancellation_reason := Some ''User requested cancellation''\<rparr>],
            products := [ex_widget\<lparr>p_stock := 7\<rparr>, ex_gadget]\<rparr>) \<and>
   cancel (ex_db\<lparr>orders := [ex_order\<lparr>o_status := ''cancelled''\<rparr>]\<rparr>) ex_user ''o1'' None =
     (Inl StoreError, ex_db\<lparr>orders := [ex_order\<lparr>o_status := ''cancelled''\<rparr>]\<rparr>)"
  by (simp add: cancel_def update_single_def update_where_def cancellation_reason_def Let_def
      has_columns_def in_int4_def ex_defs)

subsection \<open>Status update\<close>




subsection \<open>Cart\<close>

text \<open>
  Claim C6. Adding a product to the cart with a product id and a quantity of at least one
  (one when the body gives none): when the store has no approved product row with that id,
  the answer is 404 Product not found. For an approved product: with no line of this user
  for the product, a quantity above the stock is answered with 400 Insufficient stock and
  any other quantity inserts a new line, which is returned; with a line already there, a
  sum of its quantity and the requested one above the stock is answered with one of the two
  400 stock errors, and otherwise the line's quantity becomes that sum and the updated line
  is returned. Every error leaves the store unchanged.
\<close>

theorem cart_add_contract:
  assumes "cb_product_id body = Some product_id" and "product_id \<noteq> []"
    and "quantity = (case cb_quantity body of None \<Rightarrow> 1 | Some q \<Rightarrow> q)"
    and "0 < quantity"
  shows
    "((\<forall>p\<in>set (products st). p_id p = product_id \<longrightarrow> \<not> p_approved_by_ai p) \<longrightarrow>
        cart_add st user new_id body = (Inl CartProductNotFound, st)) \<and>
     (\<forall>p. filter (\<lambda>p. p_id p = product_id \<and> p_approved_by_ai p) (products st) = [p] \<longrightarrow>
        (filter (\<lambda>c. ci_user_id c = u_id user \<and> ci_product_id c = product_id) (cart_items st) = [] \<longrightarrow>
           (p_stock p < quantity \<longrightarrow> cart_add st user new_id body = (Inl InsufficientStock, st)) \<and>
           (quantity \<le> p_stock p \<longrightarrow>
              cart_add st user new_id body =
                (Inr \<lparr> ci_id = new_id, ci_user_id = u_id user,
                       ci_product_id = product_id, ci_quantity = quantity \<rparr>,
                 st\<lparr>cart_items := cart_items st @
                      [\<lparr> ci_id = new_id, ci_user_id = u_id user,
                         ci_product_id = product_id, ci_quantity = quantity \<rparr>]\<rparr>))) \<and>
        (\<forall>line. filter (\<lambda>c. ci_user_id c = u_id user \<and> ci_product_id c = product_id) (cart_items st) = [line]
                \<and> 0 \<le> ci_quantity line \<longrightarrow>
           (p_stock p < ci_quantity line + quantity \<longrightarrow>
              cart_add st user new_id body = (Inl InsufficientStock, st) \<or>
              cart_add st user new_id body = (Inl NotEnoughStock, st)) \<and>
           (ci_quantity line + quantity \<le> p_stock p \<and> distinct (map ci_id (cart_items st)) \<longrightarrow>
              cart_add st user new_id body =
                (Inr (line\<lparr>ci_quantity := ci_quantity line + quantity\<rparr>),
                 st\<lparr>cart_items := update_where (\<lambda>c. ci_id c = ci_id line)
                        (\<lambda>c. c\<lparr>ci_quantity := ci_quantity line + quantity\<rparr>) (cart_items st)\<rparr>))))"
proof (intro conjI allI impI)
  assume none: "\<forall>p\<in>set (products st). p_id p = product_id \<longrightarrow> \<not> p_approved_by_ai p"
  then have "filter (\<lambda>p. p_id p = product_id \<and> p_approved_by_ai p) (products st) = []"
    by (auto simp: filter_empty_conv)
  with assms show "cart_add st user new_id body = (Inl CartProductNotFound, st)"
    by (simp add: cart_add_def)
next
  fix p
  assume p: "filter (\<lambda>p. p_id p = product_id \<and> p_approved_by_ai p) (products st) = [p]"
    and c: "filter (\<lambda>c. ci_user_id c = u_id user \<and> ci_product_id c = product_id) (cart_items st) = []"
    and "p_stock p < quantity"
  with assms show "cart_add st user new_id body = (Inl InsufficientStock, st)"
    by (simp add: cart_add_def)
next
  fix p
  assume p: "filter (\<lambda>p. p_id p = product_id \<and> p_approved_by_ai p) (products st) = [p]"
    and c: "filter (\<lambda>c. ci_user_id c = u_id user \<and> ci_product_id c = product_id) (cart_items st) = []"
    and "quantity \<le> p_stock p"
  with assms show "cart_add st user new_id body =
                (Inr \<lparr> ci_id = new_id, ci_user_id = u_id user,
                       ci_product_id = product_id, ci_quantity = quantity \<rparr>,
                 st\<lparr>cart_items := cart_items st @
                      [\<lparr> ci_id = new_id, ci_user_id = u_id user,
                         ci_product_id = product_id, ci_quantity = quantity \<rparr>]\<rparr>)"
    by (simp add: cart_add_def Let_def)
next
  fix p line
  assume p: "filter (\<lambda>p. p_id p = product_id \<and> p_approved_by_ai p) (products st) = [p]"
    and c: "filter (\<lambda>c. ci_user_id c = u_id user \<and> ci_product_id c = product_id) (cart_items st) = [line]
             \<and> 0 \<le> ci_quantity line"
    and "p_stock p < ci_quantity line + quantity"
  with assms show "cart_add st user new_id body = (Inl InsufficientStock, st) \<or>
              cart_add st user new_id body = (Inl NotEnoughStock, st)"
    by (simp add: cart_add_def Let_def)
next
  fix p line
  assume p: "filter (\<lambda>p. p_id p = product_id \<and> p_approved_by_ai p) (products st) = [p]"
    and c: "filter (\<lambda>c. ci_user_id c = u_id user \<and> ci_product_id c = product_id) (cart_items st) = [line]
             \<and> 0 \<le> ci_quantity line"
    and ok: "ci_quantity line + quantity \<le> p_stock p \<and> distinct (map ci_id (cart_items st))"
  from c have "line \<in> set (filter (\<lambda>c. ci_user_id c = u_id user \<and> ci_product_id c = product_id) (cart_items st))"
    by simp
  then have "line \<in> set (cart_items st)" by simp
  with ok have one: "filter (\<lambda>c. ci_id c = ci_id line) (cart_items st) = [line]"
    by (simp add: filter_key_member)
  from c ok have "quantity \<le> p_stock p" by linarith
  with assms p c ok one show "cart_add st user new_id body =
                (Inr (line\<lparr>ci_quantity := ci_quantity line + quantity\<rparr>),
                 st\<lparr>cart_items := update_where (\<lambda>c. ci_id c = ci_id line)
                        (\<lambda>c. c\<lparr>ci_quantity := ci_quantity line + quantity\<rparr>) (cart_items st)\<rparr>)"
    by (simp add: cart_add_def Let_def update_single_def)
qed

theorem cart_add_contract_witness:
  "cart_add ex_db ex_user ''c3'' \<lparr> cb_product_id = Some ''p2'', cb_quantity = None \<rparr>
     = (Inl CartProductNotFound, ex_db) \<and>
   (cart_add ex_db ex_user ''c3'' \<lparr> cb_product_id = Some ''p1'', cb_quantity = Some 3 \<rparr>
      = (Inl InsufficientStock, ex_db) \<or>
    cart_add ex_db ex_user ''c3'' \<lparr> cb_product_id = Some ''p1'', cb_quantity = Some 3 \<rparr>
      = (Inl NotEnoughStock, ex_db)) \<and>
   cart_add ex_db ex_user ''c3'' \<lparr> cb_product_id = Some ''p1'', cb_quantity = Some 2 \<rparr>
     = (Inr \<lparr> ci_id = ''c1'', ci_user_id = ''u1'', ci_product_id = ''p1'', ci_quantity = 3 \<rparr>,
        ex_db\<lparr>cart_items :=
          [\<lparr> ci_id = ''c1'', ci_user_id = ''u1'', ci_product_id = ''p1'', ci_quantity = 3 \<rparr>,
           \<lparr> ci_id = ''c2'', ci_user_id = ''u2'', ci_product_id = ''p1'', ci_quantity = 2 \<rparr>]\<rparr>) \<and>
   cart_add (ex_db\<lparr>cart_items := []\<rparr>) ex_user ''c3'' \<lparr> cb_product_id = Some ''p1'', cb_quantity = None \<rparr>
     = (Inr \<lparr> ci_id = ''c3'', ci_user_id = ''u1'', ci_product_id = ''p1'', ci_quantity = 1 \<rparr>,
        ex_db\<lparr>cart_items :=
          [\<lparr> ci_id = ''c3'', ci_user_id = ''u1'', ci_product_id = ''p1'', ci_quantity = 1 \<rparr>]\<rparr>)"
proof -
  let ?line = "\<lparr> ci_id = ''c1'', ci_user_id = ''u1'', ci_product_id = ''p1'', ci_quantity = 1 \<rparr>"
  have w: "filter (\<lambda>p. p_id p = ''p1'' \<and> p_approved_by_ai p) (products ex_db) = [ex_widget]"
    by (simp add: ex_defs)
  have l: "filter (\<lambda>c. ci_user_id c = u_id ex_user \<and> ci_product_id c = ''p1'') (cart_items ex_db) = [?line]"
    by (simp add: ex_defs)
  have e: "filter (\<lambda>c. ci_user_id c = u_id ex_user \<and> ci_product_id c = ''p1'')
             (cart_items (ex_db\<lparr>cart_items := []\<rparr>)) = []"
    by simp
  have w': "filter (\<lambda>p. p_id p = ''p1'' \<and> p_approved_by_ai p) (products (ex_db\<lparr>cart_items := []\<rparr>)) = [ex_widget]"
    by (simp add: ex_defs)
  have d: "distinct (map ci_id (cart_items ex_db))" by (simp add: ex_defs)
  have g: "\<forall>p\<in>set (products ex_db). p_id p = ''p2'' \<longrightarrow> \<not> p_approved_by_ai p"
    by (simp add: ex_defs)
  have 1: "cart_add ex_db ex_user ''c3'' \<lparr> cb_product_id = Some ''p2'', cb_quantity = None \<rparr>
     = (Inl CartProductNotFound, ex_db)"
    using cart_add_contract [of "\<lparr> cb_product_id = Some ''p2'', cb_quantity = None \<rparr>" "''p2''" 1
        ex_db ex_user "''c3''"] g by simp
  have 2: "cart_add ex_db ex_user ''c3'' \<lparr> cb_product_id = Some ''p1'', cb_quantity = Some 3 \<rparr>
      = (Inl InsufficientStock, ex_db) \<or>
    cart_add ex_db ex_user ''c3'' \<lparr> cb_product_id = Some ''p1'', cb_quantity = Some 3 \<rparr>
      = (Inl NotEnoughStock, ex_db)"
    using cart_add_contract [of "\<lparr> cb_product_id = Some ''p1'', cb_quantity = Some 3 \<rparr>" "''p1''" 3
        ex_db ex_user "''c3''"] w l by (simp add: ex_widget_def)
  have 3: "cart_add ex_db ex_user ''c3'' \<lparr> cb_product_id = Some ''p1'', cb_quantity = Some 2 \<rparr>
     = (Inr (?line\<lparr>ci_quantity := ci_quantity ?line + 2\<rparr>),
        ex_db\<lparr>cart_items := update_where (\<lambda>c. ci_id c = ci_id ?line)
                        (\<lambda>c. c\<lparr>ci_quantity := ci_quantity ?line + 2\<rparr>) (cart_items ex_db)\<rparr>)"
    using cart_add_contract [of "\<lparr> cb_product_id = Some ''p1'', cb_quantity = Some 2 \<rparr>" "''p1''" 2
        ex_db ex_user "''c3''"] w l d by (simp add: ex_widget_def)
  have 4: "cart_add (ex_db\<lparr>cart_items := []\<rparr>) ex_user ''c3'' \<lparr> cb_product_id = Some ''p1'', cb_quantity = None \<rparr>
     = (Inr \<lparr> ci_id = ''c3'', ci_user_id = u_id ex_user, ci_product_id = ''p1'', ci_quantity = 1 \<rparr>,
        ex_db\<lparr>cart_items := cart_items (ex_db\<lparr>cart_items := []\<rparr>) @
          [\<lparr> ci_id = ''c3'', ci_user_id = u_id ex_user, ci_product_id = ''p1'', ci_quantity = 1 \<rparr>]\<rparr>)"
    using cart_add_contract [of "\<lparr> cb_product_id = Some ''p1'', cb_quantity = None \<rparr>" "''p1''" 1
        "ex_db\<lparr>cart_items := []\<rparr>" ex_user "''c3''"] w' e by (simp add: ex_widget_def)
  show ?thesis
    using 1 2 3 4 by (simp add: update_where_def ex_cart_def ex_db_def ex_user_def)
qed

text \<open>
  Claim C10. Removing a cart line always answers with success. It deletes exactly the
  lines that have the given id and belong to the caller: nothing when there is none (an
  unknown id, a line already removed, a line of another user), and removing twice leaves
  the store as removing once does. Products and orders are not touched.
\<close>

theorem cart_remove_idempotent:
  "(\<exists>message. fst (cart_remove st user line_id) = Inr message) \<and>
   snd (cart_remove (snd (cart_remove st user line_id)) user line_id)
     = snd (cart_remove st user line_id) \<and>
   ((\<forall>c\<in>set (cart_items st). \<not> (ci_id c = line_id \<and> ci_user_id c = u_id user)) \<longrightarrow>
      snd (cart_remove st user line_id) = st) \<and>
   set (cart_items (snd (cart_remove st user line_id))) \<subseteq> set (cart_items st) \<and>
   (\<forall>c\<in>set (cart_items st). c \<notin> set (cart_items (snd (cart_remove st user line_id))) \<longrightarrow>
      ci_id c = line_id \<and> ci_user_id c = u_id user) \<and>
   products (snd (cart_remove st user line_id)) = products st \<and>
   orders (snd (cart_remove st user line_id)) = orders st"
proof -
  have "(\<forall>c\<in>set (cart_items st). \<not> (ci_id c = line_id \<and> ci_user_id c = u_id user)) \<longrightarrow>
      filter (\<lambda>c. \<not> (ci_id c = line_id \<and> ci_user_id c = u_id user)) (cart_items st) = cart_items st"
    by (simp add: filter_id_conv)
  then show ?thesis
    by (auto simp: cart_remove_def)
qed

theorem cart_remove_idempotent_witness:
  "snd (cart_remove ex_db ex_user ''c2'') = ex_db \<and>
   snd (cart_remove ex_db ex_user ''nope'') = ex_db \<and>
   cart_items (snd (cart_remove ex_db ex_user ''c1'')) =
     [\<lparr> ci_id = ''c2'', ci_user_id = ''u2'', ci_product_id = ''p1'', ci_quantity = 2 \<rparr>] \<and>
   snd (cart_remove (snd (cart_remove ex_db ex_user ''c1'')) ex_user ''c1'')
     = snd (cart_remove ex_db ex_user ''c1'')"
proof -
  have 1: "snd (cart_remove ex_db ex_user ''c2'') = ex_db"
    using cart_remove_idempotent [of ex_db ex_user "''c2''"] by (simp add: ex_defs)
  have 2: "snd (cart_remove ex_db ex_user ''nope'') = ex_db"
    using cart_remove_idempotent [of ex_db ex_user "''nope''"] by (simp add: ex_defs)
  have 3: "cart_items (snd (cart_remove ex_db ex_user ''c1'')) =
     [\<lparr> ci_id = ''c2'', ci_user_id = ''u2'', ci_product_id = ''p1'', ci_quantity = 2 \<rparr>]"
    by (simp add: cart_remove_def ex_defs)
  have 4: "snd (cart_remove (snd (cart_remove ex_db ex_user ''c1'')) ex_user ''c1'')
     = snd (cart_remove ex_db ex_user ''c1'')"
    using cart_remove_idempotent [of ex_db ex_user "''c1''"] by simp
  from 1 2 3 4 show ?thesis by simp
qed

subsection \<open>Authentication\<close>

text \<open>
  Claim C7 says that both modes give the role \<open>user\<close> when the user has no row in the
  user table. In the mandatory mode the lookup of a missing row is an error of
  \<open>.single()\<close>, and the middleware answers 500 Failed to fetch user data.
\<close>

theorem authenticateToken_missing_row_counterexample:
  "map ur_id (users ex_db) = [''u1'', ''a1''] \<and>
   ex_getUser ''tok'' = Some \<lparr> au_id = ''u9'', au_email = ''u9@example.org'' \<rparr> \<and>
   authenticateToken ex_getUser ex_db (Some ''Bearer tok'') = Inl FailedToFetchUserData"
  by (simp add: authenticateToken_def bearer_token_def ex_getUser_def ex_defs)

text \<open>
  Claim C7, amended. Once the identity provider has accepted the token: when the user has
  no row in the user table, the optional mode attaches the identity with role \<open>user\<close>
  and the mandatory mode answers 500 Failed to fetch user data; when the user has a row,
  both modes attach the identity with the row's role, or \<open>user\<close> when that role is
  null or empty.
\<close>

theorem role_default:
  assumes "bearer_token authHeader = Some token" and "getUser token = Some user"
  shows "(filter (\<lambda>r. ur_id r = au_id user) (users st) = [] \<longrightarrow>
            optionalAuth getUser st authHeader =
              Some \<lparr> u_id = au_id user, u_email = au_email user, u_role = ''user'' \<rparr> \<and>
            authenticateToken getUser st authHeader = Inl FailedToFetchUserData) \<and>
         (\<forall>row. filter (\<lambda>r. ur_id r = au_id user) (users st) = [row] \<longrightarrow>
            authenticateToken getUser st authHeader =
              Inr \<lparr> u_id = au_id user, u_email = au_email user,
                    u_role = (case ur_role row of
                                None \<Rightarrow> ''user''
                              | Some role \<Rightarrow> if role = [] then ''user'' else role) \<rparr> \<and>
            optionalAuth getUser st authHeader =
              Some \<lparr> u_id = au_id user, u_email = au_email user,
                     u_role = (case ur_role row of
                                 None \<Rightarrow> ''user''
                               | Some role \<Rightarrow> if role = [] then ''user'' else role) \<rparr>)"
  using assms
  by (simp add: authenticateToken_def optionalAuth_def role_or_user_def)

theorem role_default_witness:
  "optionalAuth ex_getUser ex_db (Some ''Bearer tok'') =
     Some \<lparr> u_id = ''u9'', u_email = ''u9@example.org'', u_role = ''user'' \<rparr> \<and>
   authenticateToken ex_getUser ex_db (Some ''Bearer tok'') = Inl FailedToFetchUserData \<and>
   authenticateToken ex_getUser (ex_db\<lparr>users := [\<lparr> ur_id = ''u9'', ur_role = None \<rparr>]\<rparr>)
       (Some ''Bearer tok'') =
     Inr \<lparr> u_id = ''u9'', u_email = ''u9@example.org'', u_role = ''user'' \<rparr>"
proof -
  have t: "bearer_token (Some ''Bearer tok'') = Some ''tok''" by (simp add: bearer_token_def)
  have g: "ex_getUser ''tok'' = Some \<lparr> au_id = ''u9'', au_email = ''u9@example.org'' \<rparr>"
    by (simp add: ex_getUser_def)
  have "filter (\<lambda>r. ur_id r = ''u9'') (users ex_db) = []" by (simp add: ex_defs)
  moreover have "filter (\<lambda>r. ur_id r = ''u9'') (users (ex_db\<lparr>users := [\<lparr> ur_id = ''u9'', ur_role = None \<rparr>]\<rparr>))
      = [\<lparr> ur_id = ''u9'', ur_role = None \<rparr>]" by simp
  ultimately show ?thesis
    using t g
      role_default [where getUser = ex_getUser and token = "''tok''"
        and authHeader = "Some ''Bearer tok''" and st = ex_db
        and user = "\<lparr> au_id = ''u9'', au_email = ''u9@example.org'' \<rparr>"]
      role_default [where getUser = ex_getUser and token = "''tok''"
        and authHeader = "Some ''Bearer tok''"
        and st = "ex_db\<lparr>users := [\<lparr> ur_id = ''u9'', ur_role = None \<rparr>]\<rparr>"
        and user = "\<lparr> au_id = ''u9'', au_email = ''u9@example.org'' \<rparr>"]
    by simp
qed

end
